theory Spec2Isabelle
  imports Complex_Main "HOL-Library.Log_Nat"
begin

section \<open>Dates, times and time zones\<close>

text \<open>
  The service works on naive \<open>datetime\<close> values that denote UTC instants. A
  \<open>datetime\<close> is modelled as its number of microseconds since
  1970-01-01T00:00:00, a \<open>date\<close> as its number of days since 1970-01-01, a
  \<open>time\<close> of day as its number of microseconds since midnight and a
  \<open>timedelta\<close> as a number of microseconds. The year limits of Python's
  \<open>datetime\<close> (years 1 to 9999) are modelled where
  \<open>calculate_store_metrics\<close> subtracts the three window lengths from the
  reference time (\<open>datetime_sub\<close> below); the date arithmetic inside the loop
  over the days is unbounded.
\<close>

type_synonym datetime = int
type_synonym date = int
type_synonym dt_time = int
type_synonym timedelta = int

definition us_per_day :: int where
  "us_per_day = 86400000000"

text \<open>\<open>dt_time(h, m, s)\<close>, \<open>timedelta(hours=h)\<close>, \<open>timedelta(days=d)\<close> and
  \<open>timedelta(weeks=w)\<close>.\<close>

definition mk_time :: "int \<Rightarrow> int \<Rightarrow> int \<Rightarrow> dt_time" where
  "mk_time h m s = ((h * 60 + m) * 60 + s) * 1000000"

definition timedelta_hours :: "int \<Rightarrow> timedelta" where
  "timedelta_hours h = h * 3600000000"

definition timedelta_days :: "int \<Rightarrow> timedelta" where
  "timedelta_days d = d * us_per_day"

definition timedelta_weeks :: "int \<Rightarrow> timedelta" where
  "timedelta_weeks w = w * (7 * us_per_day)"

text \<open>\<open>dt.date()\<close>, \<open>datetime.combine(d, t)\<close> and \<open>d.weekday()\<close>
  (0 is Monday; 1970-01-01 was a Thursday).\<close>

definition date_of :: "datetime \<Rightarrow> date" where
  "date_of t = t div us_per_day"

definition combine :: "date \<Rightarrow> dt_time \<Rightarrow> datetime" where
  "combine d t = d * us_per_day + t"

definition weekday :: "date \<Rightarrow> int" where
  "weekday d = (d + 3) mod 7"

text \<open>\<open>datetime.min\<close> is 0001-01-01T00:00:00 and \<open>datetime.max\<close> is
  9999-12-31T23:59:59.999999; \<open>dt - td\<close> raises \<open>OverflowError\<close> when the
  result lies outside.\<close>

definition datetime_min :: datetime where
  "datetime_min = combine (- 719162) 0"

definition datetime_max :: datetime where
  "datetime_max = combine 2932896 (us_per_day - 1)"

subsection \<open>Floats\<close>

text \<open>
  A Python float is a binary64 number and is modelled by the rational it denotes.
  \<open>float64 x\<close> is the binary64 number nearest to \<open>x\<close>, a tie going to the
  even significand: for \<open>2 ^ k \<le> |x| < 2 ^ (k + 1)\<close> it rounds \<open>|x|\<close> to a
  multiple of \<open>2 ^ (k - 52)\<close>. Every arithmetic operation on floats, and the
  division of two integers, gives the \<open>float64\<close> of the exact result. The
  exponent range, infinities and NaN are not modelled: a difference of two datetimes
  is below \<open>2 ^ 59\<close> microseconds and at least one microsecond, far from both
  ends of the range.
\<close>

definition round_half_even :: "rat \<Rightarrow> int" where
  "round_half_even x =
     (let f = \<lfloor>x\<rfloor>; r = x - of_int f in
      if r < 1 / 2 then f else if 1 / 2 < r then f + 1 else if even f then f else f + 1)"

definition binary_exponent :: "rat \<Rightarrow> int" where
  "binary_exponent a =
     (case quotient_of a of (p, q) \<Rightarrow>
        let k = bitlen p - bitlen q in if 2 powi k \<le> a then k else k - 1)"

definition float64 :: "rat \<Rightarrow> rat" where
  "float64 x =
     (if x = 0 then 0
      else let e = binary_exponent \<bar>x\<bar> - 52 in
           sgn x * of_int (round_half_even (\<bar>x\<bar> / 2 powi e)) * 2 powi e)"

definition float_add :: "rat \<Rightarrow> rat \<Rightarrow> rat" where
  "float_add x y = float64 (x + y)"

definition float_mul :: "rat \<Rightarrow> rat \<Rightarrow> rat" where
  "float_mul x y = float64 (x * y)"

definition float_div :: "rat \<Rightarrow> rat \<Rightarrow> rat" where
  "float_div x y = float64 (x / y)"

text \<open>\<open>td.total_seconds()\<close>: the microseconds of the difference, an integer,
  divided by \<open>10 ** 6\<close>.\<close>

definition total_seconds :: "timedelta \<Rightarrow> rat" where
  "total_seconds td = float64 (of_int td / 1000000)"

text \<open>
  The time zone database of \<open>pytz\<close> is not part of the repository, so it is a
  parameter of the model: a \<open>tzdb\<close> maps a zone name to a zone, and a name it
  does not know makes \<open>pytz.timezone\<close> raise. A zone is given by the two
  functions the code uses: its UTC offset at a UTC instant (for \<open>astimezone\<close>)
  and the UTC offset that \<open>localize\<close> chooses for a naive local wall-clock
  value, both in microseconds.
\<close>

record tzinfo =
  utcoffset_at_utc :: "datetime \<Rightarrow> timedelta"
  utcoffset_at_local :: "datetime \<Rightarrow> timedelta"

type_synonym tzdb = "string \<Rightarrow> tzinfo option"

datatype error =
    UnknownTimeZoneError string
  | OverflowError
  | TypeError
  | IntegrityError
  | OSError string

definition pytz_timezone :: "tzdb \<Rightarrow> string \<Rightarrow> error + tzinfo" where
  "pytz_timezone tzs name =
     (case tzs name of None \<Rightarrow> Inl (UnknownTimeZoneError name) | Some tz \<Rightarrow> Inr tz)"

text \<open>\<open>local_tz.localize(dt).astimezone(pytz.UTC).replace(tzinfo=None)\<close>: the UTC
  instant of a naive local wall-clock value.\<close>

definition localize_to_utc :: "tzinfo \<Rightarrow> datetime \<Rightarrow> datetime" where
  "localize_to_utc tz dt = dt - utcoffset_at_local tz dt"

text \<open>A zone with one fixed offset, such as \<open>UTC\<close> (offset 0).\<close>

definition fixed_offset :: "timedelta \<Rightarrow> tzinfo" where
  "fixed_offset off = \<lparr>utcoffset_at_utc = (\<lambda>_. off), utcoffset_at_local = (\<lambda>_. off)\<rparr>"

section \<open>The tables (app/models.py)\<close>

text \<open>
  Each table is the list of its rows, except \<open>reports\<close>, which is keyed by its
  primary key \<open>id\<close>. The surrogate \<open>id\<close> columns of the three data tables
  and \<open>created_at\<close> of a report are read nowhere and are left out.
\<close>

record StoreStatus =
  ss_store_id :: string
  timestamp_utc :: datetime
  status :: string

record BusinessHours =
  bh_store_id :: string
  day_of_week :: int
  start_time_local :: dt_time
  end_time_local :: dt_time

record StoreTimezone =
  tz_store_id :: string
  timezone_str :: string

record Report =
  report_status :: string
  file_path :: "string option"

record db =
  store_status :: "StoreStatus list"
  business_hours :: "BusinessHours list"
  store_timezone :: "StoreTimezone list"
  reports :: "string \<rightharpoonup> Report"

section \<open>ReportGeneratorService (app/services/report\_generator.py)\<close>

subsection \<open>Look-ups with defaults\<close>

text \<open>\<open>get_max_timestamp\<close>: \<open>func.max\<close> over the table, \<open>None\<close> when it is
  empty.\<close>

definition get_max_timestamp :: "db \<Rightarrow> datetime option" where
  "get_max_timestamp d =
     (case store_status d of [] \<Rightarrow> None
      | r # rs \<Rightarrow> Some (fold (\<lambda>x m. max (timestamp_utc x) m) rs (timestamp_utc r)))"

definition get_store_timezone :: "db \<Rightarrow> string \<Rightarrow> string" where
  "get_store_timezone d sid =
     (case filter (\<lambda>r. tz_store_id r = sid) (store_timezone d) of
        [] \<Rightarrow> ''America/Chicago''
      | timezone_data # _ \<Rightarrow> timezone_str timezone_data)"

type_synonym hours_dict = "int \<rightharpoonup> (dt_time \<times> dt_time)"

definition bh_rows :: "db \<Rightarrow> string \<Rightarrow> BusinessHours list" where
  "bh_rows d sid = filter (\<lambda>bh. bh_store_id bh = sid) (business_hours d)"

definition full_day :: "dt_time \<times> dt_time" where
  "full_day = (mk_time 0 0 0, mk_time 23 59 59)"

definition default_hours :: hours_dict where
  "default_hours = (\<lambda>i. if 0 \<le> i \<and> i < 7 then Some full_day else None)"

definition get_business_hours :: "db \<Rightarrow> string \<Rightarrow> hours_dict" where
  "get_business_hours d sid =
     (let rows = bh_rows d sid in
      if rows = [] then default_hours
      else foldl (\<lambda>hours_dict bh.
                    hours_dict(day_of_week bh \<mapsto> (start_time_local bh, end_time_local bh)))
             Map.empty rows)"

text \<open>\<open>convert_utc_to_local\<close>: the result is the local wall-clock value of the
  aware datetime that the code returns; its \<open>date()\<close> and \<open>weekday()\<close> are
  those of that wall-clock value.\<close>

definition convert_utc_to_local :: "tzdb \<Rightarrow> datetime \<Rightarrow> string \<Rightarrow> error + datetime" where
  "convert_utc_to_local tzs utc_time tz_str =
     (case pytz_timezone tzs tz_str of
        Inl e \<Rightarrow> Inl e
      | Inr local_tz \<Rightarrow> Inr (utc_time + utcoffset_at_utc local_tz utc_time))"

text \<open>\<open>is_within_business_hours\<close>; \<open>local_time\<close> is the local wall-clock
  value.\<close>

definition is_within_business_hours :: "datetime \<Rightarrow> hours_dict \<Rightarrow> bool" where
  "is_within_business_hours local_time hours =
     (let day_of_week = weekday (date_of local_time) in
      case hours day_of_week of
        None \<Rightarrow> False
      | Some (start_time, end_time) \<Rightarrow>
          let current_time = local_time mod us_per_day in
          if start_time \<le> end_time then start_time \<le> current_time \<and> current_time \<le> end_time
          else current_time \<ge> start_time \<or> current_time \<le> end_time)"

text \<open>\<open>get_business_hours_duration\<close>, in hours; \<open>t.hour * 60 + t.minute\<close> is
  the number of whole minutes of a time of day.\<close>

definition get_business_hours_duration :: "hours_dict \<Rightarrow> int \<Rightarrow> rat" where
  "get_business_hours_duration hours dow =
     (case hours dow of
        None \<Rightarrow> 0
      | Some (start_time, end_time) \<Rightarrow>
          let start_minutes = start_time div 60000000;
              end_minutes = end_time div 60000000;
              duration_minutes =
                (if start_minutes \<le> end_minutes then end_minutes - start_minutes
                 else (24 * 60) - start_minutes + end_minutes)
          in float_div (of_int duration_minutes) 60)"

subsection \<open>interpolate\_status\_for\_period\<close>

text \<open>The query of lines 102 to 108: the rows of the location inside the range, in
  ascending order of timestamp.\<close>

definition query_status_records :: "db \<Rightarrow> string \<Rightarrow> datetime \<Rightarrow> datetime \<Rightarrow> StoreStatus list" where
  "query_status_records d sid start_time end_time =
     sort_key timestamp_utc
       (filter (\<lambda>r. ss_store_id r = sid \<and> timestamp_utc r \<ge> start_time
                     \<and> timestamp_utc r \<le> end_time) (store_status d))"

text \<open>The running totals are the pair \<open>(total_uptime_minutes,
  total_downtime_minutes)\<close>. \<open>attribute st dur\<close> is the \<open>if last_status ==
  'active'\<close> statement of lines 174 to 177 and 184 to 187.\<close>

text \<open>\<open>td.total_seconds() / 60\<close>.\<close>

definition minutes :: "timedelta \<Rightarrow> rat" where
  "minutes td = float_div (total_seconds td) 60"

fun attribute :: "string \<Rightarrow> rat \<Rightarrow> rat \<times> rat \<Rightarrow> rat \<times> rat" where
  "attribute last_status duration (up, down) =
     (if last_status = ''active'' then (float_add up duration, down)
      else (up, float_add down duration))"

text \<open>The \<open>for record in day_records\<close> loop; it returns \<open>last_timestamp\<close>,
  \<open>last_status\<close> and the totals.\<close>

fun walk_records ::
  "StoreStatus list \<Rightarrow> datetime \<Rightarrow> string \<Rightarrow> rat \<times> rat \<Rightarrow> datetime \<times> string \<times> (rat \<times> rat)" where
  "walk_records [] last_timestamp last_status totals = (last_timestamp, last_status, totals)"
| "walk_records (record # rest) last_timestamp last_status totals =
     walk_records rest (timestamp_utc record) (status record)
       (attribute last_status (minutes (timestamp_utc record - last_timestamp)) totals)"

text \<open>Lines 157 to 187: the observations of one clipped business period.\<close>

definition day_records_of :: "StoreStatus list \<Rightarrow> datetime \<Rightarrow> datetime \<Rightarrow> StoreStatus list" where
  "day_records_of status_records period_start period_end =
     filter (\<lambda>r. period_start \<le> timestamp_utc r \<and> timestamp_utc r \<le> period_end)
       status_records"

definition process_period ::
  "StoreStatus list \<Rightarrow> datetime \<Rightarrow> datetime \<Rightarrow> rat \<times> rat \<Rightarrow> rat \<times> rat" where
  "process_period status_records period_start period_end totals =
     (let day_records = day_records_of status_records period_start period_end in
      if day_records = [] then
        (fst totals, float_add (snd totals) (minutes (period_end - period_start)))
      else
        (case walk_records day_records period_start ''inactive'' totals of
           (last_timestamp, last_status, totals') \<Rightarrow>
             attribute last_status (minutes (period_end - last_timestamp)) totals'))"

text \<open>Lines 136 to 147: the business window of a local date as a pair of UTC
  instants.\<close>

definition bh_window_utc :: "tzinfo \<Rightarrow> date \<Rightarrow> dt_time \<times> dt_time \<Rightarrow> datetime \<times> datetime" where
  "bh_window_utc local_tz local_date hours =
     (case hours of (bh_start, bh_end) \<Rightarrow>
        let bh_start_dt = combine local_date bh_start;
            bh_end_dt = combine local_date bh_end;
            bh_end_dt = (if bh_start > bh_end then bh_end_dt + timedelta_days 1 else bh_end_dt)
        in (localize_to_utc local_tz bh_start_dt, localize_to_utc local_tz bh_end_dt))"

text \<open>The body of the \<open>while\<close> loop for one \<open>current_date\<close>.\<close>

definition process_day ::
  "tzdb \<Rightarrow> string \<Rightarrow> hours_dict \<Rightarrow> datetime \<Rightarrow> datetime \<Rightarrow> StoreStatus list \<Rightarrow> date
     \<Rightarrow> rat \<times> rat \<Rightarrow> error + (rat \<times> rat)" where
  "process_day tzs tz_str hours start_time end_time status_records current_date totals =
     (let day_start = combine current_date 0 in
      case convert_utc_to_local tzs day_start tz_str of
        Inl e \<Rightarrow> Inl e
      | Inr local_day_start \<Rightarrow>
          (case hours (weekday (date_of local_day_start)) of
             None \<Rightarrow> Inr totals
           | Some bh \<Rightarrow>
               (case pytz_timezone tzs tz_str of
                  Inl e \<Rightarrow> Inl e
                | Inr local_tz \<Rightarrow>
                    (case bh_window_utc local_tz (date_of local_day_start) bh of
                       (bh_start_utc, bh_end_utc) \<Rightarrow>
                         let period_start = max start_time bh_start_utc;
                             period_end = min end_time bh_end_utc
                         in if period_start \<ge> period_end then Inr totals
                            else Inr (process_period status_records period_start period_end
                                        totals)))))"

function day_loop ::
  "tzdb \<Rightarrow> string \<Rightarrow> hours_dict \<Rightarrow> datetime \<Rightarrow> datetime \<Rightarrow> StoreStatus list \<Rightarrow> date \<Rightarrow> date
     \<Rightarrow> rat \<times> rat \<Rightarrow> error + (rat \<times> rat)" where
  "day_loop tzs tz_str hours start_time end_time status_records current_date end_date totals =
     (if current_date \<le> end_date then
        (case process_day tzs tz_str hours start_time end_time status_records
                current_date totals of
           Inl e \<Rightarrow> Inl e
         | Inr totals' \<Rightarrow>
             day_loop tzs tz_str hours start_time end_time status_records
               (current_date + 1) end_date totals')
      else Inr totals)"
  by pat_completeness auto
termination
  by (relation "measure (\<lambda>(tzs, tz, hours, s, e, recs, cur, end_date, tot).
                           nat (end_date + 1 - cur))") auto

declare day_loop.simps [simp del]

definition interpolate_status_for_period ::
  "tzdb \<Rightarrow> db \<Rightarrow> string \<Rightarrow> datetime \<Rightarrow> datetime \<Rightarrow> string \<Rightarrow> hours_dict
     \<Rightarrow> error + (rat \<times> rat)" where
  "interpolate_status_for_period tzs d sid start_time end_time tz_str hours =
     (let status_records = query_status_records d sid start_time end_time in
      if status_records = [] then Inr (0, 0)
      else
        (case day_loop tzs tz_str hours start_time end_time status_records
                (date_of start_time) (date_of end_time) (0, 0) of
           Inl e \<Rightarrow> Inl e
         | Inr (total_uptime_minutes, total_downtime_minutes) \<Rightarrow>
             Inr (float_div total_uptime_minutes 60, float_div total_downtime_minutes 60)))"

subsection \<open>calculate\_store\_metrics\<close>

text \<open>Python's \<open>round(x, ndigits)\<close> on a float: the exact value of \<open>x\<close> is
  rounded to the nearest decimal number with \<open>ndigits\<close> places, a tie going to
  the even one, and the result is the float nearest to that decimal number.\<close>

definition py_round :: "rat \<Rightarrow> nat \<Rightarrow> rat" where
  "py_round x ndigits =
     float64 (of_int (round_half_even (x * 10 ^ ndigits)) / 10 ^ ndigits)"

text \<open>\<open>current_time - timedelta(...)\<close>.\<close>

definition datetime_sub :: "datetime \<Rightarrow> timedelta \<Rightarrow> error + datetime" where
  "datetime_sub t td =
     (if t - td < datetime_min \<or> datetime_max < t - td then Inl OverflowError
      else Inr (t - td))"

record Metrics =
  store_id :: string
  uptime_last_hour :: rat
  uptime_last_day :: rat
  uptime_last_week :: rat
  downtime_last_hour :: rat
  downtime_last_day :: rat
  downtime_last_week :: rat

definition calculate_store_metrics :: "tzdb \<Rightarrow> db \<Rightarrow> string \<Rightarrow> datetime \<Rightarrow> error + Metrics" where
  "calculate_store_metrics tzs d sid current_time =
     (let tz_str = get_store_timezone d sid;
          hours = get_business_hours d sid
      in
      case datetime_sub current_time (timedelta_hours 1) of
        Inl e \<Rightarrow> Inl e
      | Inr one_hour_ago \<Rightarrow>
      (case datetime_sub current_time (timedelta_days 1) of
        Inl e \<Rightarrow> Inl e
      | Inr one_day_ago \<Rightarrow>
      (case datetime_sub current_time (timedelta_weeks 1) of
        Inl e \<Rightarrow> Inl e
      | Inr one_week_ago \<Rightarrow>
      (case interpolate_status_for_period tzs d sid one_hour_ago current_time tz_str hours of
        Inl e \<Rightarrow> Inl e
      | Inr (uptime_1h, downtime_1h) \<Rightarrow>
      (case interpolate_status_for_period tzs d sid one_day_ago current_time tz_str hours of
        Inl e \<Rightarrow> Inl e
      | Inr (uptime_1d, downtime_1d) \<Rightarrow>
      (case interpolate_status_for_period tzs d sid one_week_ago current_time tz_str hours of
        Inl e \<Rightarrow> Inl e
      | Inr (uptime_1w, downtime_1w) \<Rightarrow>
          Inr \<lparr>store_id = sid,
               uptime_last_hour = py_round (float_mul uptime_1h 60) 2,
               uptime_last_day = py_round uptime_1d 2,
               uptime_last_week = py_round uptime_1w 2,
               downtime_last_hour = py_round (float_mul downtime_1h 60) 2,
               downtime_last_day = py_round downtime_1d 2,
               downtime_last_week = py_round downtime_1w 2\<rparr>))))))"

subsection \<open>generate\_report\_async\<close>

text \<open>
  The file system is part of the state: the CSV files by path, and which paths can be
  opened for writing (\<open>open\<close> raises \<open>OSError\<close> on the others). A CSV file is
  its header and its data rows. Database commits are taken to succeed.
\<close>

record csv_file =
  fieldnames :: "string list"
  data_rows :: "Metrics list"

record filesystem =
  files :: "string \<rightharpoonup> csv_file"
  writable :: "string \<Rightarrow> bool"

text \<open>The call of line 248 with the value of \<open>get_max_timestamp\<close>: on \<open>None\<close>
  the subtraction of line 200 raises \<open>TypeError\<close>.\<close>

definition metrics_at :: "tzdb \<Rightarrow> db \<Rightarrow> string \<Rightarrow> datetime option \<Rightarrow> error + Metrics" where
  "metrics_at tzs d sid current_time =
     (case current_time of
        None \<Rightarrow> Inl TypeError
      | Some t \<Rightarrow> calculate_store_metrics tzs d sid t)"

text \<open>Lines 245 to 252: the loop over the locations, with its \<open>try\<close> and
  \<open>except\<close>.\<close>

fun collect_report_data :: "tzdb \<Rightarrow> db \<Rightarrow> datetime option \<Rightarrow> string list \<Rightarrow> Metrics list" where
  "collect_report_data tzs d current_time [] = []"
| "collect_report_data tzs d current_time (sid # store_ids) =
     (case metrics_at tzs d sid current_time of
        Inl e \<Rightarrow> collect_report_data tzs d current_time store_ids
      | Inr metrics \<Rightarrow> metrics # collect_report_data tzs d current_time store_ids)"

definition report_fieldnames :: "string list" where
  "report_fieldnames =
     [''store_id'', ''uptime_last_hour'', ''uptime_last_day'', ''uptime_last_week'',
      ''downtime_last_hour'', ''downtime_last_day'', ''downtime_last_week'']"

text \<open>The distinct location ids of line 241, in the order of their last rows (SQL
  leaves the order open).\<close>

definition distinct_store_ids :: "db \<Rightarrow> string list" where
  "distinct_store_ids d = remdups (map ss_store_id (store_status d))"

definition csv_path :: "string \<Rightarrow> string" where
  "csv_path report_id = ''reports/'' @ report_id @ ''.csv''"

definition generate_report_async ::
  "tzdb \<Rightarrow> string \<Rightarrow> db \<times> filesystem \<Rightarrow> db \<times> filesystem" where
  "generate_report_async tzs report_id st =
     (case st of (d, f) \<Rightarrow>
        (case reports d report_id of
           None \<Rightarrow> (d, f)
         | Some report \<Rightarrow>
             let current_time = get_max_timestamp d;
                 store_ids = distinct_store_ids d;
                 report_data = collect_report_data tzs d current_time store_ids;
                 csv_file_path = csv_path report_id
             in if writable f csv_file_path then
                  (d\<lparr>reports := (reports d)(report_id \<mapsto>
                        report\<lparr>report_status := ''Complete'',
                               file_path := Some csv_file_path\<rparr>)\<rparr>,
                   f\<lparr>files := (files f)(csv_file_path \<mapsto>
                        \<lparr>fieldnames = report_fieldnames, data_rows = report_data\<rparr>)\<rparr>)
                else
                  (d\<lparr>reports := (reports d)(report_id \<mapsto>
                        report\<lparr>report_status := ''Failed''\<rparr>)\<rparr>, f)))"

section \<open>The endpoints (app/api/endpoints.py)\<close>

text \<open>
  The state of the service: the database, the file system and the background tasks
  that are scheduled and have not run yet (each the \<open>report_id\<close> of a
  \<open>generate_report_async\<close> call).
\<close>

record service =
  sys_db :: db
  sys_fs :: filesystem
  background_tasks :: "string list"

text \<open>\<open>trigger_report\<close>; the fresh \<open>uuid4\<close> is an argument. \<open>id\<close> is the
  primary key of \<open>reports\<close>, so the commit of a row whose id exists raises and
  changes nothing.\<close>

definition trigger_report :: "string \<Rightarrow> service \<Rightarrow> (error + string) \<times> service" where
  "trigger_report report_id s =
     (if reports (sys_db s) report_id \<noteq> None then (Inl IntegrityError, s)
      else
        (Inr report_id,
         s\<lparr>sys_db := (sys_db s)\<lparr>reports := (reports (sys_db s))(report_id \<mapsto>
               \<lparr>report_status = ''Running'', file_path = None\<rparr>)\<rparr>,
           background_tasks := background_tasks s @ [report_id]\<rparr>))"

text \<open>One scheduled background task runs: it leaves the queue and
  \<open>generate_report_async\<close> runs to its end (it has no \<open>await\<close>).\<close>

definition run_background_task :: "tzdb \<Rightarrow> string \<Rightarrow> service \<Rightarrow> service" where
  "run_background_task tzs report_id s =
     (if report_id \<in> set (background_tasks s) then
        (case generate_report_async tzs report_id (sys_db s, sys_fs s) of
           (d', f') \<Rightarrow>
             s\<lparr>sys_db := d', sys_fs := f',
               background_tasks := remove1 report_id (background_tasks s)\<rparr>)
      else s)"

datatype response =
    Json_status string
  | FileResponse string string string
  | HTTPException int string

definition path_exists :: "filesystem \<Rightarrow> string \<Rightarrow> bool" where
  "path_exists f p = (files f p \<noteq> None)"

text \<open>\<open>get_report\<close>; \<open>report.file_path and ...\<close> is false for \<open>None\<close> and for
  the empty string.\<close>

definition get_report :: "string \<Rightarrow> service \<Rightarrow> response" where
  "get_report report_id s =
     (case reports (sys_db s) report_id of
        None \<Rightarrow> HTTPException 404 ''Report not found''
      | Some report \<Rightarrow>
          if report_status report = ''Running'' then Json_status ''Running''
          else if report_status report = ''Complete'' then
            (case file_path report of
               None \<Rightarrow> HTTPException 500 ''Report file not found''
             | Some p \<Rightarrow>
                 if p \<noteq> [] \<and> path_exists (sys_fs s) p then
                   FileResponse p ''text/csv'' (''store_report_'' @ report_id @ ''.csv'')
                 else HTTPException 500 ''Report file not found'')
          else HTTPException 500 ''Report generation failed'')"

text \<open>The service runs as a sequence of events: a client triggers a report, or a
  scheduled background task runs.\<close>

datatype event = Trigger string | Run_task string

fun apply_event :: "tzdb \<Rightarrow> event \<Rightarrow> service \<Rightarrow> service" where
  "apply_event tzs (Trigger report_id) s = snd (trigger_report report_id s)"
| "apply_event tzs (Run_task report_id) s = run_background_task tzs report_id s"

fun run_events :: "tzdb \<Rightarrow> event list \<Rightarrow> service \<Rightarrow> service" where
  "run_events tzs [] s = s"
| "run_events tzs (ev # evs) s = run_events tzs evs (apply_event tzs ev s)"

section \<open>Notions used to state the properties\<close>

text \<open>
  Carried-forward interpolation as the specification words it: a cursor walks the
  observations of a period; the time from the cursor to the next observation belongs to
  the running state, which then becomes the status of that observation; the time from
  the last observation to the end of the period belongs to the final running state.
  \<open>locf_segments\<close> lists these pieces as pairs of a state and a duration,
  \<open>segment_minutes P\<close> gives the minutes of the pieces whose state satisfies
  \<open>P\<close>, in their order, and \<open>float_sum acc\<close> adds a list of floats to a
  total one after the other, as \<open>+=\<close> does.
\<close>

fun locf_segments :: "datetime \<Rightarrow> string \<Rightarrow> StoreStatus list \<Rightarrow> datetime \<Rightarrow> (string \<times> timedelta) list" where
  "locf_segments cursor running [] period_end = [(running, period_end - cursor)]"
| "locf_segments cursor running (ob # rest) period_end =
     (running, timestamp_utc ob - cursor)
       # locf_segments (timestamp_utc ob) (status ob) rest period_end"

definition segment_minutes :: "(string \<Rightarrow> bool) \<Rightarrow> (string \<times> timedelta) list \<Rightarrow> rat list" where
  "segment_minutes P segs = map (\<lambda>seg. minutes (snd seg)) (filter (\<lambda>seg. P (fst seg)) segs)"

fun float_sum :: "rat \<Rightarrow> rat list \<Rightarrow> rat" where
  "float_sum acc [] = acc"
| "float_sum acc (x # xs) = float_sum (float_add acc x) xs"

text \<open>The invariant of the task queue: no report id is scheduled twice, and every
  scheduled id is the key of a report whose status is \<open>Running\<close>.\<close>

definition tasks_running :: "service \<Rightarrow> bool" where
  "tasks_running s =
     (distinct (background_tasks s) \<and>
      list_all (\<lambda>rid. case reports (sys_db s) rid of None \<Rightarrow> False
                       | Some r \<Rightarrow> report_status r = ''Running'') (background_tasks s))"

section \<open>Example data\<close>

text \<open>
  A time zone database with \<open>UTC\<close> and with \<open>America/Chicago\<close> at its
  standard-time offset of six hours behind UTC, which is the offset of that zone at
  every instant of the examples (January 2023). \<open>jan n\<close> is the date
  2023-01-n; 2023-01-23 is a Monday.
\<close>

definition example_tzdb :: tzdb where
  "example_tzdb name =
     (if name = ''UTC'' then Some (fixed_offset 0)
      else if name = ''America/Chicago'' then Some (fixed_offset (- timedelta_hours 6))
      else None)"

definition jan :: "int \<Rightarrow> date" where
  "jan n = 19357 + n"

definition at_time :: "date \<Rightarrow> int \<Rightarrow> int \<Rightarrow> datetime" where
  "at_time d h m = combine d (mk_time h m 0)"

definition observation :: "string \<Rightarrow> datetime \<Rightarrow> string \<Rightarrow> StoreStatus" where
  "observation sid t st = \<lparr>ss_store_id = sid, timestamp_utc = t, status = st\<rparr>"

text \<open>One location with one observation, no stored business hours and no stored
  time zone.\<close>

definition db_single :: db where
  "db_single =
     \<lparr>store_status = [observation ''s1'' (at_time (jan 25) 17 30) ''active''],
      business_hours = [], store_timezone = [], reports = Map.empty\<rparr>"

text \<open>One location in zone UTC that is open on Mondays from 22:00 to 02:00 and
  closed at all other hours.\<close>

definition db_overnight :: db where
  "db_overnight =
     \<lparr>store_status = [observation ''s2'' (at_time (jan 23) 23 0) ''active'',
                       observation ''s2'' (at_time (jan 24) 1 0) ''active''],
      business_hours = [\<lparr>bh_store_id = ''s2'', day_of_week = 0,
                          start_time_local = mk_time 22 0 0, end_time_local = mk_time 2 0 0\<rparr>],
      store_timezone = [\<lparr>tz_store_id = ''s2'', timezone_str = ''UTC''\<rparr>],
      reports = Map.empty\<rparr>"

text \<open>One location in zone UTC that is open from 22:00 to 02:00 on every day of the
  week and closed at all other hours.\<close>

definition nightly :: "int \<Rightarrow> BusinessHours" where
  "nightly dow = \<lparr>bh_store_id = ''s4'', day_of_week = dow,
                  start_time_local = mk_time 22 0 0, end_time_local = mk_time 2 0 0\<rparr>"

definition db_nightly :: db where
  "db_nightly =
     \<lparr>store_status = [observation ''s4'' (at_time (jan 23) 23 0) ''active'',
                       observation ''s4'' (at_time (jan 24) 1 30) ''active'',
                       observation ''s4'' (at_time (jan 24) 23 0) ''inactive''],
      business_hours = [nightly 0, nightly 1, nightly 2, nightly 3, nightly 4, nightly 5,
                        nightly 6],
      store_timezone = [\<lparr>tz_store_id = ''s4'', timezone_str = ''UTC''\<rparr>],
      reports = Map.empty\<rparr>"

text \<open>One location with business hours for three of the seven days.\<close>

definition db_partial :: db where
  "db_partial =
     \<lparr>store_status = [],
      business_hours =
        [\<lparr>bh_store_id = ''s3'', day_of_week = 0,
           start_time_local = mk_time 9 0 0, end_time_local = mk_time 17 0 0\<rparr>,
         \<lparr>bh_store_id = ''s3'', day_of_week = 1,
           start_time_local = mk_time 9 0 0, end_time_local = mk_time 17 0 0\<rparr>,
         \<lparr>bh_store_id = ''s3'', day_of_week = 2,
           start_time_local = mk_time 9 0 0, end_time_local = mk_time 17 0 0\<rparr>],
      store_timezone = [], reports = Map.empty\<rparr>"

text \<open>Three locations; the zone name of the second is unknown to the time zone
  database. The first is open on Wednesdays from 09:00 to 19:00; \<open>metrics_a\<close> is
  its record at the reference time 2023-01-25 12:00, with \<open>float64 (267 / 100)\<close>
  the float that Python prints as 2.67.\<close>

definition db_three :: db where
  "db_three =
     \<lparr>store_status = [observation ''a'' (combine (jan 25) (mk_time 9 19 30)) ''active'',
                       observation ''a'' (at_time (jan 25) 11 30) ''active'',
                       observation ''b'' (at_time (jan 25) 11 40) ''active'',
                       observation ''c'' (at_time (jan 25) 12 0) ''inactive''],
      business_hours = [\<lparr>bh_store_id = ''a'', day_of_week = 2,
                          start_time_local = mk_time 9 0 0, end_time_local = mk_time 19 0 0\<rparr>],
      store_timezone = [\<lparr>tz_store_id = ''a'', timezone_str = ''UTC''\<rparr>,
                        \<lparr>tz_store_id = ''b'', timezone_str = ''Mars/Olympus''\<rparr>,
                        \<lparr>tz_store_id = ''c'', timezone_str = ''UTC''\<rparr>],
      reports = Map.empty\<rparr>"

definition db_three_running :: db where
  "db_three_running =
     db_three\<lparr>reports := [''job1'' \<mapsto> \<lparr>report_status = ''Running'', file_path = None\<rparr>]\<rparr>"

definition fs_empty :: filesystem where
  "fs_empty = \<lparr>files = Map.empty, writable = (\<lambda>_. True)\<rparr>"

definition service_start :: service where
  "service_start =
     \<lparr>sys_db = db_three,
      sys_fs = \<lparr>files = Map.empty, writable = (\<lambda>_. True)\<rparr>,
      background_tasks = []\<rparr>"

definition service_lost_file :: service where
  "service_lost_file =
     \<lparr>sys_db = db_three\<lparr>reports := [''job1'' \<mapsto>
         \<lparr>report_status = ''Complete'', file_path = Some ''reports/job1.csv''\<rparr>]\<rparr>,
      sys_fs = \<lparr>files = Map.empty, writable = (\<lambda>_. True)\<rparr>,
      background_tasks = []\<rparr>"

definition metrics_a :: Metrics where
  "metrics_a = \<lparr>store_id = ''a'', uptime_last_hour = 30, uptime_last_day = float64 (267 / 100),
        uptime_last_week = float64 (267 / 100), downtime_last_hour = 30,
        downtime_last_day = float64 (33 / 100), downtime_last_week = float64 (733 / 100)\<rparr>"

section \<open>Auxiliary lemmas\<close>

subsection \<open>Rounding to binary64\<close>

lemma round_half_even_of_int: "round_half_even (of_int j) = j"
  by (simp add: round_half_even_def)

lemma round_half_even_nonneg: "0 \<le> x \<Longrightarrow> 0 \<le> round_half_even x"
  unfolding round_half_even_def Let_def by auto

lemma round_half_even_le:
  assumes "x \<le> of_int u"
  shows "round_half_even x \<le> u"
proof (cases "\<lfloor>x\<rfloor> < u")
  case True
  then show ?thesis unfolding round_half_even_def Let_def by auto
next
  case False
  moreover have "\<lfloor>x\<rfloor> \<le> u" using assms by (simp add: floor_le_iff)
  ultimately have fl: "\<lfloor>x\<rfloor> = u" by simp
  have "of_int \<lfloor>x\<rfloor> \<le> x" by simp
  with fl assms have "x = of_int u" by simp
  then show ?thesis by (simp add: round_half_even_of_int)
qed

lemma round_half_even_close: "\<bar>of_int (round_half_even x) - x\<bar> \<le> 1 / 2"
proof -
  have "of_int \<lfloor>x\<rfloor> \<le> x" "x < of_int \<lfloor>x\<rfloor> + 1" by linarith+
  then show ?thesis
    unfolding round_half_even_def Let_def by (auto simp: abs_le_iff)+
qed

lemma two_powi_pos: "0 < (2::rat) powi k"
  by simp

lemma of_int_bitlen_bounds:
  assumes "0 < p"
  shows "(2::rat) powi (bitlen p - 1) \<le> of_int p" and "of_int p < (2::rat) powi (bitlen p)"
proof -
  from bitlen_bounds[OF assms]
  have b: "2 ^ nat (bitlen p - 1) \<le> p" "p < 2 ^ nat (bitlen p)" by simp_all
  have ge1: "1 \<le> bitlen p" using assms by (auto simp: bitlen_alt_def)
  have "(2::rat) powi (bitlen p - 1) = 2 ^ nat (bitlen p - 1)"
    using ge1 by (simp add: power_int_nonneg_exp)
  also have "\<dots> = of_int (2 ^ nat (bitlen p - 1))" by simp
  also have "\<dots> \<le> of_int p" using b(1) by (simp only: of_int_le_iff)
  finally show "(2::rat) powi (bitlen p - 1) \<le> of_int p" .
  have "(of_int p :: rat) < of_int (2 ^ nat (bitlen p))" using b(2) by (simp only: of_int_less_iff)
  also have "\<dots> = 2 ^ nat (bitlen p)" by simp
  also have "\<dots> = (2::rat) powi (bitlen p)"
    using ge1 by (simp add: power_int_nonneg_exp)
  finally show "of_int p < (2::rat) powi (bitlen p)" .
qed

lemma binary_exponent_bounds:
  assumes "0 < a"
  shows "2 powi binary_exponent a \<le> a \<and> a < 2 powi (binary_exponent a + 1)"
proof -
  obtain p q where pq: "quotient_of a = (p, q)" by (cases "quotient_of a")
  have q: "0 < q" using pq by (rule quotient_of_denom_pos)
  have a: "a = of_int p / of_int q" using pq by (rule quotient_of_div)
  have p: "0 < p" using assms q a by (simp add: zero_less_divide_iff)
  let ?k = "bitlen p - bitlen q"
  note bp = of_int_bitlen_bounds[OF p] and bq = of_int_bitlen_bounds[OF q]
  have qpos: "(0::rat) < of_int q" using q by simp
  have up: "a < 2 powi (?k + 1)"
  proof -
    have "a < 2 powi (bitlen p) / of_int q"
      unfolding a using bp(2) qpos by (simp add: divide_strict_right_mono)
    also have "\<dots> \<le> 2 powi (bitlen p) / 2 powi (bitlen q - 1)"
      using bq(1) qpos by (intro divide_left_mono) (simp_all add: zero_less_mult_iff)
    also have "\<dots> = 2 powi (bitlen p - (bitlen q - 1))"
      by (simp add: power_int_diff)
    also have "bitlen p - (bitlen q - 1) = ?k + 1" by simp
    finally show ?thesis .
  qed
  have low: "2 powi (?k - 1) < a"
  proof -
    have "2 powi (?k - 1) = (2::rat) powi (bitlen p - 1 - bitlen q)" by (simp add: algebra_simps)
    also have "\<dots> = 2 powi (bitlen p - 1) / 2 powi (bitlen q)"
      by (simp add: power_int_diff)
    also have "\<dots> \<le> of_int p / 2 powi (bitlen q)"
      using bp(1) by (simp add: divide_right_mono)
    also have "\<dots> < of_int p / of_int q"
      using bq(2) p qpos by (intro divide_strict_left_mono) simp_all
    finally show ?thesis unfolding a .
  qed
  show ?thesis
  proof (cases "2 powi ?k \<le> a")
    case True
    then have "binary_exponent a = ?k" by (simp add: binary_exponent_def pq)
    with True up show ?thesis by simp
  next
    case False
    then have "binary_exponent a = ?k - 1" by (simp add: binary_exponent_def pq)
    with False low show ?thesis by simp
  qed
qed

lemma binary_exponent_less:
  assumes "0 < a" "a < 2 powi K"
  shows "binary_exponent a < K"
proof (rule ccontr)
  assume "\<not> binary_exponent a < K"
  then have "K \<le> binary_exponent a" by simp
  then have "(2::rat) powi K \<le> 2 powi binary_exponent a" by (intro power_int_increasing) simp_all
  with binary_exponent_bounds[OF assms(1)] assms(2) show False by simp
qed

lemma float64_fixed:
  assumes "\<bar>n\<bar> \<le> 2 ^ 53"
  shows "float64 (of_int n * 2 powi e0) = of_int n * 2 powi e0"
proof (cases "n = 0")
  case True
  then show ?thesis by (simp add: float64_def)
next
  case False
  let ?x = "of_int n * (2::rat) powi e0"
  let ?a = "\<bar>?x\<bar>"
  let ?e = "binary_exponent ?a - 52"
  have x0: "?x \<noteq> 0" using False by simp
  have a: "?a = of_int \<bar>n\<bar> * 2 powi e0" by (simp add: abs_mult)
  have apos: "0 < ?a" using x0 by simp
  note be = binary_exponent_bounds[OF apos]
  have ale: "?a \<le> 2 powi (53 + e0)"
  proof -
    have "(of_int \<bar>n\<bar> :: rat) \<le> of_int (2 ^ 53)" using assms by (simp only: of_int_le_iff)
    then have "of_int \<bar>n\<bar> * (2::rat) powi e0 \<le> 2 ^ 53 * 2 powi e0"
      by (intro mult_right_mono) simp_all
    also have "\<dots> = 2 powi (53 + e0)" by (simp add: power_int_add)
    finally show ?thesis unfolding a .
  qed
  have "\<exists>j::int. ?a / 2 powi ?e = of_int j"
  proof (cases "?e \<le> e0")
    case True
    have "?a / 2 powi ?e = of_int \<bar>n\<bar> * (2 powi e0 / 2 powi ?e)" unfolding a by simp
    also have "2 powi e0 / 2 powi ?e = (2::rat) powi (e0 - ?e)" by (simp add: power_int_diff)
    also have "\<dots> = 2 ^ nat (e0 - ?e)" using True by (simp add: power_int_nonneg_exp)
    finally have "?a / 2 powi ?e = of_int (\<bar>n\<bar> * 2 ^ nat (e0 - ?e))" by simp
    then show ?thesis by blast
  next
    case False
    have "?a < 2 powi (54 + e0)"
    proof -
      have "(2::rat) powi (53 + e0) < 2 powi (54 + e0)" by (intro power_int_strict_increasing) simp_all
      with ale show ?thesis by simp
    qed
    from binary_exponent_less[OF apos this] False have k: "binary_exponent ?a = 53 + e0" by simp
    from be k have "2 powi (53 + e0) \<le> ?a" by simp
    with ale have aeq: "?a = 2 powi (53 + e0)" by simp
    have e: "?e = 1 + e0" using k by simp
    have "?a / 2 powi ?e = 2 powi (53 + e0) / 2 powi (1 + e0)" unfolding e using aeq by simp
    also have "\<dots> = (2::rat) powi ((53 + e0) - (1 + e0))"
      by (rule power_int_diff[symmetric]) simp
    also have "(53 + e0) - (1 + e0) = 52" by simp
    also have "(2::rat) powi 52 = of_int (2 ^ 52)" by simp
    finally show ?thesis by blast
  qed
  then obtain j :: int where j: "?a / 2 powi ?e = of_int j" by blast
  have "float64 ?x = sgn ?x * of_int (round_half_even (?a / 2 powi ?e)) * 2 powi ?e"
    using x0 by (simp add: float64_def Let_def)
  also have "\<dots> = sgn ?x * (?a / 2 powi ?e) * 2 powi ?e"
    unfolding j round_half_even_of_int ..
  also have "\<dots> = sgn ?x * ?a" by simp
  also have "\<dots> = ?x" by (simp only: sgn_mult_abs)
  finally show ?thesis .
qed

lemma float64_zero: "float64 0 = 0"
  by (simp add: float64_def)

lemma float64_structure:
  assumes "x \<noteq> 0"
  shows "\<exists>m e. 0 \<le> m \<and> m \<le> 2 ^ 53 \<and> float64 x = sgn x * of_int m * 2 powi e"
proof -
  let ?a = "\<bar>x\<bar>"
  let ?e = "binary_exponent ?a - 52"
  let ?m = "round_half_even (?a / 2 powi ?e)"
  have apos: "0 < ?a" using assms by simp
  note be = binary_exponent_bounds[OF apos]
  have "?a < 2 powi (?e + 53)" using be by (simp add: algebra_simps)
  also have "\<dots> = 2 powi ?e * 2 powi 53" by (rule power_int_add) simp
  finally have "?a / 2 powi ?e < 2 powi 53" by (simp add: pos_divide_less_eq mult.commute)
  also have "(2::rat) powi 53 = of_int (2 ^ 53)" by simp
  finally have "?a / 2 powi ?e \<le> of_int (2 ^ 53)" by simp
  then have m1: "?m \<le> 2 ^ 53" by (rule round_half_even_le)
  have m0: "0 \<le> ?m" by (intro round_half_even_nonneg) simp
  have "float64 x = sgn x * of_int ?m * 2 powi ?e" using assms by (simp add: float64_def Let_def)
  with m0 m1 show ?thesis by blast
qed

lemma float64_nonneg: "0 \<le> x \<Longrightarrow> 0 \<le> float64 x"
proof (cases "x = 0")
  case True
  then show ?thesis by (simp add: float64_zero)
next
  case False
  assume "0 \<le> x"
  with False have s: "sgn x = 1" by simp
  from float64_structure[OF False] obtain m e where
    "0 \<le> m" "float64 x = sgn x * of_int m * 2 powi e" by blast
  then show ?thesis using s by simp
qed

lemma float64_idem: "float64 (float64 x) = float64 x"
proof (cases "x = 0")
  case True
  then show ?thesis by (simp add: float64_zero)
next
  case False
  from float64_structure[OF False] obtain m e where
    m: "0 \<le> m" "m \<le> 2 ^ 53" and f: "float64 x = sgn x * of_int m * 2 powi e" by blast
  have "sgn x = 1 \<or> sgn x = - 1" using False by (auto simp: sgn_if)
  then have "float64 x = of_int m * 2 powi e \<or> float64 x = of_int (- m) * 2 powi e"
    using f by auto
  then show ?thesis using float64_fixed[of m e] float64_fixed[of "- m" e] m by auto
qed

lemma float_add_zero_left: "float_add 0 (float64 x) = float64 x"
  by (simp add: float_add_def float64_idem)

subsection \<open>The interpolation\<close>

lemma float_div_nonneg: "0 \<le> x \<Longrightarrow> 0 < y \<Longrightarrow> 0 \<le> float_div x y"
  by (simp add: float_div_def float64_nonneg)

lemma float_add_nonneg: "0 \<le> x \<Longrightarrow> 0 \<le> y \<Longrightarrow> 0 \<le> float_add x y"
  by (simp add: float_add_def float64_nonneg)

lemma minutes_nonneg: "0 \<le> td \<Longrightarrow> 0 \<le> minutes td"
  by (simp add: minutes_def total_seconds_def float_div_nonneg float64_nonneg)

lemma float_add_zero_minutes: "float_add 0 (minutes td) = minutes td"
  by (simp add: minutes_def float_div_def float_add_zero_left)

lemma attribute_nonneg:
  "0 \<le> dur \<Longrightarrow> 0 \<le> fst tot \<Longrightarrow> 0 \<le> snd tot \<Longrightarrow>
   0 \<le> fst (attribute st dur tot) \<and> 0 \<le> snd (attribute st dur tot)"
  by (cases tot) (simp add: float_add_nonneg)


lemma walk_records_nonneg:
  "sorted (map timestamp_utc rs) \<Longrightarrow> \<forall>r \<in> set rs. lt \<le> timestamp_utc r \<and> timestamp_utc r \<le> pe \<Longrightarrow>
   lt \<le> pe \<Longrightarrow> 0 \<le> fst tot \<Longrightarrow> 0 \<le> snd tot \<Longrightarrow>
   walk_records rs lt ls tot = (lt', ls', tot') \<Longrightarrow>
   0 \<le> fst tot' \<and> 0 \<le> snd tot' \<and> lt' \<le> pe"
proof (induction rs arbitrary: lt ls tot)
  case Nil
  then show ?case by simp
next
  case (Cons r rs)
  let ?tot = "attribute ls (minutes (timestamp_utc r - lt)) tot"
  have d: "0 \<le> minutes (timestamp_utc r - lt)" using Cons.prems(2) by (simp add: minutes_nonneg)
  have nn: "0 \<le> fst ?tot \<and> 0 \<le> snd ?tot"
    using attribute_nonneg[OF d Cons.prems(4) Cons.prems(5)] .
  have w: "walk_records rs (timestamp_utc r) (status r) ?tot = (lt', ls', tot')"
    using Cons.prems(6) by simp
  show ?case
  proof (rule Cons.IH[OF _ _ _ _ _ w])
    show "sorted (map timestamp_utc rs)" using Cons.prems(1) by simp
    show "\<forall>x\<in>set rs. timestamp_utc r \<le> timestamp_utc x \<and> timestamp_utc x \<le> pe"
      using Cons.prems(1,2) by auto
    show "timestamp_utc r \<le> pe" using Cons.prems(2) by simp
    show "0 \<le> fst ?tot" using nn by simp
    show "0 \<le> snd ?tot" using nn by simp
  qed
qed

lemma process_period_nonneg:
  assumes "sorted (map timestamp_utc recs)" "ps \<le> pe" "0 \<le> fst tot" "0 \<le> snd tot"
  shows "0 \<le> fst (process_period recs ps pe tot) \<and> 0 \<le> snd (process_period recs ps pe tot)"
proof (cases "day_records_of recs ps pe = []")
  case True
  then show ?thesis using assms by (simp add: process_period_def minutes_nonneg float_add_nonneg)
next
  case False
  obtain lt ls tot' where w: "walk_records (day_records_of recs ps pe) ps ''inactive'' tot = (lt, ls, tot')"
    by (metis prod_cases3)
  have s: "sorted (map timestamp_utc (day_records_of recs ps pe))"
    using assms(1) unfolding day_records_of_def by (simp add: sorted_filter)
  have b: "\<forall>r \<in> set (day_records_of recs ps pe). ps \<le> timestamp_utc r \<and> timestamp_utc r \<le> pe"
    by (simp add: day_records_of_def)
  from walk_records_nonneg[OF s b assms(2) assms(3) assms(4) w]
  have "0 \<le> fst tot' \<and> 0 \<le> snd tot' \<and> lt \<le> pe" .
  then have "0 \<le> fst (attribute ls (minutes (pe - lt)) tot') \<and> 0 \<le> snd (attribute ls (minutes (pe - lt)) tot')"
    using attribute_nonneg[of "minutes (pe - lt)" tot' ls] by (simp add: minutes_nonneg)
  with False w show ?thesis by (simp add: process_period_def)
qed

lemma process_day_cases:
  assumes "process_day tzs tz_str hours s e recs d tot = Inr tot'"
  shows "tot' = tot \<or> (\<exists>ps pe. ps < pe \<and> tot' = process_period recs ps pe tot)"
proof (cases "tot' = tot")
  case True
  then show ?thesis by simp
next
  case False
  with assms obtain a b where "\<not> (max s a \<ge> min e b)"
    and "tot' = process_period recs (max s a) (min e b) tot"
    by (simp add: process_day_def Let_def
           split: sum.splits option.splits prod.splits if_splits)
  then have "max s a < min e b \<and> tot' = process_period recs (max s a) (min e b) tot"
    by (simp only: not_le simp_thms)
  then show ?thesis by blast
qed

lemma process_day_nonneg:
  assumes "sorted (map timestamp_utc recs)" "0 \<le> fst tot" "0 \<le> snd tot"
    and "process_day tzs tz_str hours s e recs d tot = Inr tot'"
  shows "0 \<le> fst tot' \<and> 0 \<le> snd tot'"
proof -
  from process_day_cases[OF assms(4)] show ?thesis
  proof
    assume "tot' = tot"
    with assms(2,3) show ?thesis by simp
  next
    assume "\<exists>ps pe. ps < pe \<and> tot' = process_period recs ps pe tot"
    then obtain ps pe where "ps < pe" and t: "tot' = process_period recs ps pe tot" by blast
    then have "ps \<le> pe" by simp
    from process_period_nonneg[OF assms(1) this assms(2) assms(3)] t show ?thesis by simp
  qed
qed

lemma process_day_closed:
  assumes "tzs tz_str = Some tz"
    and "hours (weekday (date_of (combine cd 0 + utcoffset_at_utc tz (combine cd 0)))) = None"
  shows "process_day tzs tz_str hours s e recs cd tot = Inr tot"
  using assms by (simp add: process_day_def convert_utc_to_local_def pytz_timezone_def)

lemma day_loop_nonneg:
  "sorted (map timestamp_utc recs) \<Longrightarrow> 0 \<le> fst tot \<Longrightarrow> 0 \<le> snd tot \<Longrightarrow>
   day_loop tzs tz_str hours s e recs d ed tot = Inr tot' \<Longrightarrow>
   0 \<le> fst tot' \<and> 0 \<le> snd tot'"
proof (induction tzs tz_str hours s e recs d ed tot rule: day_loop.induct)
  case (1 tzs tz_str hours s e recs d ed tot)
  show ?case
  proof (cases "d \<le> ed")
    case False
    with "1.prems" show ?thesis by (simp add: day_loop.simps)
  next
    case True
    show ?thesis
    proof (cases "process_day tzs tz_str hours s e recs d tot")
      case (Inl err)
      with True "1.prems"(4) show ?thesis by (subst (asm) day_loop.simps) simp
    next
      case (Inr t1)
      have nn: "0 \<le> fst t1 \<and> 0 \<le> snd t1"
        using process_day_nonneg[OF "1.prems"(1) "1.prems"(2) "1.prems"(3) Inr] .
      have "day_loop tzs tz_str hours s e recs (d + 1) ed t1 = Inr tot'"
        using "1.prems"(4) True Inr by (subst (asm) day_loop.simps) simp
      from "1.IH"[OF True Inr "1.prems"(1) _ _ this] nn show ?thesis by simp
    qed
  qed
qed

lemma query_status_records_sorted:
  "sorted (map timestamp_utc (query_status_records d sid s e))"
  by (simp add: query_status_records_def)

lemma walk_records_segments:
  "walk_records rs lt ls (u, d) = (lt', ls', tot') \<Longrightarrow>
   attribute ls' (minutes (pe - lt')) tot' =
     (float_sum u (segment_minutes (\<lambda>st. st = ''active'') (locf_segments lt ls rs pe)),
      float_sum d (segment_minutes (\<lambda>st. st \<noteq> ''active'') (locf_segments lt ls rs pe)))"
proof (induction rs arbitrary: lt ls u d)
  case Nil
  then show ?case by (auto simp: segment_minutes_def)
next
  case (Cons r rs)
  show ?case
  proof (cases "ls = ''active''")
    case True
    with Cons.prems have "walk_records rs (timestamp_utc r) (status r)
        (float_add u (minutes (timestamp_utc r - lt)), d) = (lt', ls', tot')" by simp
    from Cons.IH[OF this] True show ?thesis by (simp add: segment_minutes_def)
  next
    case False
    with Cons.prems have "walk_records rs (timestamp_utc r) (status r)
        (u, float_add d (minutes (timestamp_utc r - lt))) = (lt', ls', tot')" by simp
    from Cons.IH[OF this] False show ?thesis by (simp add: segment_minutes_def)
  qed
qed

lemma process_period_segments:
  assumes "day_records_of recs ps pe \<noteq> []"
  shows "process_period recs ps pe (u, d) =
     (float_sum u (segment_minutes (\<lambda>st. st = ''active'')
        (locf_segments ps ''inactive'' (day_records_of recs ps pe) pe)),
      float_sum d (segment_minutes (\<lambda>st. st \<noteq> ''active'')
        (locf_segments ps ''inactive'' (day_records_of recs ps pe) pe)))"
proof -
  obtain lt ls tot' where w: "walk_records (day_records_of recs ps pe) ps ''inactive'' (u, d) = (lt, ls, tot')"
    by (metis prod_cases3)
  from walk_records_segments[OF w, of pe] assms w show ?thesis
    by (simp add: process_period_def Let_def)
qed

lemma process_day_succeeds:
  assumes "pytz_timezone tzs tz_str = Inr tz"
  shows "\<exists>tot'. process_day tzs tz_str hours s e recs cd tot = Inr tot'"
  using assms
  by (simp add: process_day_def convert_utc_to_local_def Let_def
        split: option.splits prod.splits)

lemma day_loop_succeeds:
  "pytz_timezone tzs tz_str = Inr tz \<Longrightarrow>
   \<exists>tot'. day_loop tzs tz_str hours s e recs cd ed tot = Inr tot'"
proof (induction tzs tz_str hours s e recs cd ed tot rule: day_loop.induct)
  case (1 tzs tz_str hours s e recs cd ed tot)
  show ?case
  proof (cases "cd \<le> ed")
    case False
    then show ?thesis by (subst day_loop.simps) simp
  next
    case True
    from process_day_succeeds[OF "1.prems", of hours s e recs cd tot] obtain t1 where
      p: "process_day tzs tz_str hours s e recs cd tot = Inr t1" by blast
    from "1.IH"[OF True p "1.prems"] obtain t2 where
      "day_loop tzs tz_str hours s e recs (cd + 1) ed t1 = Inr t2" by blast
    with True p show ?thesis by (subst day_loop.simps) simp
  qed
qed

lemma interpolate_succeeds:
  assumes "pytz_timezone tzs tz_str = Inr tz"
  shows "\<exists>up down. interpolate_status_for_period tzs d sid s e tz_str hours = Inr (up, down)"
proof (cases "query_status_records d sid s e = []")
  case True
  then show ?thesis by (simp add: interpolate_status_for_period_def)
next
  case False
  from day_loop_succeeds[OF assms, of hours s e "query_status_records d sid s e" "date_of s" "date_of e" "(0, 0)"]
  obtain tot where "day_loop tzs tz_str hours s e (query_status_records d sid s e)
      (date_of s) (date_of e) (0, 0) = Inr tot" by blast
  with False show ?thesis
    by (cases tot) (simp add: interpolate_status_for_period_def Let_def)
qed

subsection \<open>Business hours and the metrics of a location\<close>

lemma foldl_hours_None:
  "i \<notin> day_of_week ` set rows \<Longrightarrow>
   foldl (\<lambda>hours_dict bh. hours_dict(day_of_week bh \<mapsto> (start_time_local bh, end_time_local bh))) m rows i = m i"
  by (induction rows arbitrary: m) auto

lemma get_business_hours_unlisted:
  "bh_rows d sid \<noteq> [] \<Longrightarrow> i \<notin> day_of_week ` set (bh_rows d sid) \<Longrightarrow> get_business_hours d sid i = None"
  by (simp add: get_business_hours_def Let_def foldl_hours_None)

lemma get_business_hours_default:
  "bh_rows d sid = [] \<Longrightarrow> 0 \<le> i \<Longrightarrow> i \<le> 6 \<Longrightarrow> get_business_hours d sid i = Some full_day"
  by (simp add: get_business_hours_def default_hours_def)

lemma query_no_observation:
  "\<forall>r \<in> set (store_status d). ss_store_id r \<noteq> sid \<Longrightarrow> query_status_records d sid s e = []"
  by (simp add: query_status_records_def filter_empty_conv)

lemma interpolate_no_observation:
  "\<forall>r \<in> set (store_status d). ss_store_id r \<noteq> sid \<Longrightarrow>
   interpolate_status_for_period tzs d sid s e tz_str hours = Inr (0, 0)"
  by (simp add: interpolate_status_for_period_def query_no_observation)

lemma datetime_sub_in_range:
  assumes "datetime_min + td \<le> t" "t \<le> datetime_max" "0 \<le> td"
  shows "datetime_sub t td = Inr (t - td)"
  using assms by (simp add: datetime_sub_def)

lemma datetime_sub_window:
  assumes "datetime_min + timedelta_weeks 1 \<le> t" "t \<le> datetime_max"
  shows "datetime_sub t (timedelta_hours 1) = Inr (t - timedelta_hours 1)"
    and "datetime_sub t (timedelta_days 1) = Inr (t - timedelta_days 1)"
    and "datetime_sub t (timedelta_weeks 1) = Inr (t - timedelta_weeks 1)"
  using assms
  by (simp_all add: datetime_sub_def timedelta_weeks_def timedelta_days_def timedelta_hours_def
        us_per_day_def)

lemma calculate_no_observation:
  assumes "\<forall>r \<in> set (store_status d). ss_store_id r \<noteq> sid"
    and "datetime_min + timedelta_weeks 1 \<le> t" "t \<le> datetime_max"
  shows "\<exists>m. calculate_store_metrics tzs d sid t = Inr m"
  by (simp add: calculate_store_metrics_def Let_def datetime_sub_window[OF assms(2,3)]
        interpolate_no_observation[OF assms(1)])

lemma calculate_succeeds:
  assumes "pytz_timezone tzs (get_store_timezone d sid) = Inr tz"
    and "datetime_min + timedelta_weeks 1 \<le> t" "t \<le> datetime_max"
  shows "\<exists>m. calculate_store_metrics tzs d sid t = Inr m \<and> store_id m = sid"
proof -
  note i = interpolate_succeeds[OF assms(1), of d sid _ t "get_business_hours d sid"]
  from i[of "t - timedelta_hours 1"] obtain u1 d1 where
    i1: "interpolate_status_for_period tzs d sid (t - timedelta_hours 1) t
           (get_store_timezone d sid) (get_business_hours d sid) = Inr (u1, d1)" by blast
  from i[of "t - timedelta_days 1"] obtain u2 d2 where
    i2: "interpolate_status_for_period tzs d sid (t - timedelta_days 1) t
           (get_store_timezone d sid) (get_business_hours d sid) = Inr (u2, d2)" by blast
  from i[of "t - timedelta_weeks 1"] obtain u3 d3 where
    i3: "interpolate_status_for_period tzs d sid (t - timedelta_weeks 1) t
           (get_store_timezone d sid) (get_business_hours d sid) = Inr (u3, d3)" by blast
  show ?thesis
    by (simp add: calculate_store_metrics_def Let_def datetime_sub_window[OF assms(2,3)] i1 i2 i3)
qed

lemma datetime_sub_Inr: "datetime_sub t td = Inr t' \<Longrightarrow> t' = t - td"
  by (auto simp: datetime_sub_def split: if_splits)

lemma calculate_Inr:
  assumes "calculate_store_metrics tzs d sid t = Inr m"
  shows "\<exists>u1 d1 u2 d2 u3 d3.
     interpolate_status_for_period tzs d sid (t - timedelta_hours 1) t
        (get_store_timezone d sid) (get_business_hours d sid) = Inr (u1, d1) \<and>
     interpolate_status_for_period tzs d sid (t - timedelta_days 1) t
        (get_store_timezone d sid) (get_business_hours d sid) = Inr (u2, d2) \<and>
     interpolate_status_for_period tzs d sid (t - timedelta_weeks 1) t
        (get_store_timezone d sid) (get_business_hours d sid) = Inr (u3, d3) \<and>
     m = \<lparr>store_id = sid,
          uptime_last_hour = py_round (float_mul u1 60) 2,
          uptime_last_day = py_round u2 2,
          uptime_last_week = py_round u3 2,
          downtime_last_hour = py_round (float_mul d1 60) 2,
          downtime_last_day = py_round d2 2,
          downtime_last_week = py_round d3 2\<rparr>"
  using assms
  by (auto simp: calculate_store_metrics_def Let_def
           split: sum.splits prod.splits dest!: datetime_sub_Inr)

lemma py_round_decimal:
  "\<bar>of_int (round_half_even (v * 100)) / 100 - v\<bar> \<le> 1 / 200"
proof -
  have "\<bar>of_int (round_half_even (v * 100)) - v * 100\<bar> \<le> 1 / 2"
    by (rule round_half_even_close)
  then have "\<bar>(of_int (round_half_even (v * 100)) - v * 100) / 100\<bar> \<le> (1 / 2) / 100"
    by (simp only: abs_divide abs_numeral divide_le_cancel) simp
  then show ?thesis by (simp add: diff_divide_distrib)
qed

lemma calculate_store_id:
  "calculate_store_metrics tzs d sid t = Inr m \<Longrightarrow> store_id m = sid"
  by (drule calculate_Inr) auto

lemma example_metrics_a:
  "calculate_store_metrics example_tzdb db_three ''a'' (at_time (jan 25) 12 0) = Inr metrics_a"
proof -
  let ?t = "at_time (jan 25) 12 0"
  have s1: "datetime_sub ?t (timedelta_hours 1) = Inr (at_time (jan 25) 11 0)" by code_simp
  have s2: "datetime_sub ?t (timedelta_days 1) = Inr (at_time (jan 24) 12 0)" by code_simp
  have s3: "datetime_sub ?t (timedelta_weeks 1) = Inr (at_time (jan 18) 12 0)" by code_simp
  have i1: "interpolate_status_for_period example_tzdb db_three ''a'' (at_time (jan 25) 11 0) ?t
      (get_store_timezone db_three ''a'') (get_business_hours db_three ''a'')
      = Inr (1 / 2, 1 / 2)"
    by code_simp
  have i2: "interpolate_status_for_period example_tzdb db_three ''a'' (at_time (jan 24) 12 0) ?t
      (get_store_timezone db_three ''a'') (get_business_hours db_three ''a'')
      = Inr (float_div (321 / 2) 60, float_div (39 / 2) 60)"
    by code_simp
  have i3: "interpolate_status_for_period example_tzdb db_three ''a'' (at_time (jan 18) 12 0) ?t
      (get_store_timezone db_three ''a'') (get_business_hours db_three ''a'')
      = Inr (float_div (321 / 2) 60, float_div (879 / 2) 60)"
    by code_simp
  have r: "\<lparr>store_id = ''a'',
        uptime_last_hour = py_round (float_mul (1 / 2) 60) 2,
        uptime_last_day = py_round (float_div (321 / 2) 60) 2,
        uptime_last_week = py_round (float_div (321 / 2) 60) 2,
        downtime_last_hour = py_round (float_mul (1 / 2) 60) 2,
        downtime_last_day = py_round (float_div (39 / 2) 60) 2,
        downtime_last_week = py_round (float_div (879 / 2) 60) 2\<rparr> = metrics_a"
    by code_simp
  show ?thesis
    by (simp add: calculate_store_metrics_def Let_def s1 s2 s3 i1 i2 i3 r)
qed

subsection \<open>Report generation and the job state\<close>

lemma collect_report_data_filter:
  "map Inr (collect_report_data tzs d ct ids) =
     filter (\<lambda>res. \<not> isl res) (map (\<lambda>sid. metrics_at tzs d sid ct) ids)"
  by (induction ids) (auto split: sum.splits)

lemma collect_report_data_length:
  "length (collect_report_data tzs d ct ids) =
     length (filter (\<lambda>sid. \<not> isl (metrics_at tzs d sid ct)) ids)"
  by (induction ids) (auto split: sum.splits)

lemma generate_report_complete:
  assumes "reports d rid = Some report" "writable f (csv_path rid)"
  shows "generate_report_async tzs rid (d, f) =
     (d\<lparr>reports := (reports d)(rid \<mapsto> report\<lparr>report_status := ''Complete'', file_path := Some (csv_path rid)\<rparr>)\<rparr>,
      f\<lparr>files := (files f)(csv_path rid \<mapsto> \<lparr>fieldnames = report_fieldnames,
            data_rows = collect_report_data tzs d (get_max_timestamp d) (distinct_store_ids d)\<rparr>)\<rparr>)"
  using assms by (simp add: generate_report_async_def Let_def)

lemma generate_reports_other:
  "generate_report_async tzs rid (d, f) = (d', f') \<Longrightarrow> x \<noteq> rid \<Longrightarrow> reports d' x = reports d x"
  by (auto simp: generate_report_async_def Let_def split: option.splits if_splits)

lemma generate_reports_same:
  "generate_report_async tzs rid (d, f) = (d', f') \<Longrightarrow> reports d rid = Some r \<Longrightarrow>
   \<exists>r'. reports d' rid = Some r' \<and>
     (report_status r' = ''Complete'' \<and> file_path r' = Some (csv_path rid)
      \<or> report_status r' = ''Failed'' \<and> file_path r' = file_path r)"
  by (auto simp: generate_report_async_def Let_def split: option.splits if_splits)

lemma tasks_running_trigger:
  assumes "tasks_running s"
  shows "tasks_running (snd (trigger_report rid s))"
proof (cases "reports (sys_db s) rid")
  case (Some r)
  with assms show ?thesis by (simp add: trigger_report_def)
next
  case None
  with assms have "rid \<notin> set (background_tasks s)"
    by (auto simp: tasks_running_def list_all_iff)
  with assms None show ?thesis
    by (auto simp: tasks_running_def trigger_report_def list_all_iff split: option.splits)
qed

lemma tasks_running_run:
  assumes "tasks_running s"
  shows "tasks_running (run_background_task tzs rid s)"
proof (cases "rid \<in> set (background_tasks s)")
  case False
  with assms show ?thesis by (simp add: run_background_task_def)
next
  case True
  obtain d' f' where g: "generate_report_async tzs rid (sys_db s, sys_fs s) = (d', f')"
    by (cases "generate_report_async tzs rid (sys_db s, sys_fs s)")
  have dist: "distinct (background_tasks s)" using assms by (simp add: tasks_running_def)
  have rest: "set (remove1 rid (background_tasks s)) = set (background_tasks s) - {rid}"
    using dist by simp
  have "\<And>x. x \<in> set (remove1 rid (background_tasks s)) \<Longrightarrow>
     (case reports d' x of None \<Rightarrow> False | Some r \<Rightarrow> report_status r = ''Running'')"
  proof -
    fix x assume "x \<in> set (remove1 rid (background_tasks s))"
    then have x: "x \<in> set (background_tasks s)" "x \<noteq> rid" using rest by auto
    from generate_reports_other[OF g x(2)] have "reports d' x = reports (sys_db s) x" .
    with x(1) assms show "case reports d' x of None \<Rightarrow> False | Some r \<Rightarrow> report_status r = ''Running''"
      by (simp add: tasks_running_def list_all_iff)
  qed
  with True g dist show ?thesis
    by (simp add: tasks_running_def run_background_task_def list_all_iff)
qed

lemma tasks_running_apply_event:
  "tasks_running s \<Longrightarrow> tasks_running (apply_event tzs ev s)"
  by (cases ev) (simp_all add: tasks_running_trigger tasks_running_run)

lemma tasks_running_run_events:
  "tasks_running s \<Longrightarrow> tasks_running (run_events tzs evs s)"
  by (induction evs arbitrary: s) (simp_all add: tasks_running_apply_event)

lemma tasks_running_initial:
  "background_tasks s = [] \<Longrightarrow> tasks_running s"
  by (simp add: tasks_running_def)

lemma apply_event_created:
  assumes "reports (sys_db s) rid = None" "reports (sys_db (apply_event tzs ev s)) rid = Some r'"
  shows "r' = \<lparr>report_status = ''Running'', file_path = None\<rparr>"
proof (cases ev)
  case (Trigger x)
  with assms show ?thesis
    by (auto simp: trigger_report_def split: if_splits)
next
  case (Run_task x)
  obtain d' f' where g: "generate_report_async tzs x (sys_db s, sys_fs s) = (d', f')"
    by (cases "generate_report_async tzs x (sys_db s, sys_fs s)")
  have "reports d' rid = None"
  proof (cases "x = rid")
    case True
    with g assms(1) show ?thesis by (simp add: generate_report_async_def)
  next
    case False
    with generate_reports_other[OF g, of rid] assms(1) show ?thesis by simp
  qed
  with Run_task g assms show ?thesis
    by (simp add: run_background_task_def split: if_splits)
qed

lemma apply_event_transition:
  assumes "tasks_running s" "reports (sys_db s) rid = Some r"
  shows "\<exists>r'. reports (sys_db (apply_event tzs ev s)) rid = Some r' \<and>
     (r' = r \<or> report_status r = ''Running'' \<and>
        (report_status r' = ''Complete'' \<and> file_path r' = Some (csv_path rid)
         \<or> report_status r' = ''Failed'' \<and> file_path r' = file_path r))"
proof (cases ev)
  case (Trigger x)
  with assms(2) show ?thesis by (auto simp: trigger_report_def)
next
  case (Run_task x)
  show ?thesis
  proof (cases "x \<in> set (background_tasks s)")
    case False
    with Run_task assms(2) show ?thesis by (simp add: run_background_task_def)
  next
    case True
    obtain d' f' where g: "generate_report_async tzs x (sys_db s, sys_fs s) = (d', f')"
      by (cases "generate_report_async tzs x (sys_db s, sys_fs s)")
    have new: "reports (sys_db (apply_event tzs ev s)) = reports d'"
      using Run_task True g by (simp add: run_background_task_def)
    show ?thesis
    proof (cases "x = rid")
      case False
      with generate_reports_other[OF g, of rid] assms(2) new show ?thesis by simp
    next
      case xr: True
      have "report_status r = ''Running''"
        using assms True xr by (auto simp: tasks_running_def list_all_iff)
      with generate_reports_same[OF g[unfolded xr] assms(2)] new show ?thesis by auto
    qed
  qed
qed

lemma run_events_terminal:
  "tasks_running s \<Longrightarrow> reports (sys_db s) rid = Some r \<Longrightarrow> report_status r \<noteq> ''Running'' \<Longrightarrow>
   reports (sys_db (run_events tzs evs s)) rid = Some r"
proof (induction evs arbitrary: s)
  case Nil
  then show ?case by simp
next
  case (Cons ev evs)
  from apply_event_transition[OF Cons.prems(1) Cons.prems(2), of tzs ev] Cons.prems(3)
  have "reports (sys_db (apply_event tzs ev s)) rid = Some r" by auto
  from Cons.IH[OF tasks_running_apply_event[OF Cons.prems(1)] this Cons.prems(3)]
  show ?case by simp
qed

section \<open>The properties\<close>

text \<open>
  Claim C1 (no observation in the range). The property asks that, when no observation of
  the location falls within the query range, the whole business-hours duration of the
  range is reported as downtime and the uptime is zero. The code returns \<open>(0, 0)\<close>
  instead: the early return of lines 110 to 112, under the comment "No data available,
  assume store was inactive". At the input below (location \<open>s1\<close>, zone UTC, the
  default hours, the range 2023-01-25 12:00 to 13:00, the only observation at 17:30) the
  range lies within business hours, so the property asks for \<open>(0, 1)\<close>; the call
  returns \<open>(0, 0)\<close>. The loop over the days, run on the same range with the same
  empty list of observations, takes the branch of lines 161 to 164 and gives 60 minutes
  of downtime.
\<close>

theorem no_observation_returns_zero:
  "interpolate_status_for_period example_tzdb db_single ''s1''
       (at_time (jan 25) 12 0) (at_time (jan 25) 13 0) ''UTC''
       (get_business_hours db_single ''s1'') = Inr (0, 0)
   \<and> query_status_records db_single ''s1'' (at_time (jan 25) 12 0) (at_time (jan 25) 13 0) = []
   \<and> day_loop example_tzdb ''UTC'' (get_business_hours db_single ''s1'')
         (at_time (jan 25) 12 0) (at_time (jan 25) 13 0) []
         (date_of (at_time (jan 25) 12 0)) (date_of (at_time (jan 25) 13 0)) (0, 0)
       = Inr (0, 60)"
  by code_simp

text \<open>
  Claim C2 (every business minute of the range is accounted for). The property asks that
  uptime plus downtime equal the duration of the business hours within the query range.
  The code misses business time in two more ways than the early return of C1, both with
  an observation inside the range. First, the loop takes the local date of the UTC
  midnight of each UTC date of the range; in a zone behind UTC that is the day before,
  whose window ends before the range begins. For \<open>s1\<close> (no stored zone, hence
  \<open>America/Chicago\<close>; no stored hours, hence open all day) and the range
  2023-01-25 17:00 to 18:00 UTC, which is 11:00 to 12:00 local time and holds the
  observation of 17:30, the call returns \<open>(0, 0)\<close> where the property asks for a
  sum of one hour. Second, the loop starts at the date of the range start, so the
  part of an overnight window that opened the day before is never visited: for
  \<open>s2\<close> (zone UTC, open Monday 22:00 to Tuesday 02:00) and the range Tuesday
  2023-01-24 00:00 to 12:00, which holds the observation of 01:00, the call returns
  \<open>(0, 0)\<close> where the property asks for a sum of two hours.
\<close>

theorem accounting_gap_examples:
  "query_status_records db_single ''s1'' (at_time (jan 25) 17 0) (at_time (jan 25) 18 0)
      = [observation ''s1'' (at_time (jan 25) 17 30) ''active'']
   \<and> get_store_timezone db_single ''s1'' = ''America/Chicago''
   \<and> interpolate_status_for_period example_tzdb db_single ''s1''
         (at_time (jan 25) 17 0) (at_time (jan 25) 18 0)
         (get_store_timezone db_single ''s1'') (get_business_hours db_single ''s1'')
       = Inr (0, 0)
   \<and> interpolate_status_for_period example_tzdb db_overnight ''s2''
         (at_time (jan 24) 0 0) (at_time (jan 24) 12 0)
         (get_store_timezone db_overnight ''s2'') (get_business_hours db_overnight ''s2'')
       = Inr (0, 0)"
  by code_simp

text \<open>
  Claim C3 (the two fallback policies for business hours). A location with no stored
  business-hour row gets the full-day window 00:00:00 to 23:59:59 on each of the seven
  days. A location with rows gets no entry for a day that no row lists, so the full-day
  fallback applies to an unlisted day exactly when the location has no row at all. A day
  whose weekday has no entry leaves both running totals as they are.
\<close>

theorem business_hours_fallback_policies:
  "(bh_rows d sid = [] \<longrightarrow>
      (\<forall>i. 0 \<le> i \<and> i \<le> 6 \<longrightarrow> get_business_hours d sid i = Some full_day))
   \<and> (bh_rows d sid \<noteq> [] \<longrightarrow>
      (\<forall>i. i \<notin> day_of_week ` set (bh_rows d sid) \<longrightarrow> get_business_hours d sid i = None))
   \<and> (\<forall>i. 0 \<le> i \<and> i \<le> 6 \<and> i \<notin> day_of_week ` set (bh_rows d sid) \<longrightarrow>
        (get_business_hours d sid i = Some full_day) = (bh_rows d sid = []))
   \<and> (tzs tz_str = Some tz
        \<and> get_business_hours d sid
            (weekday (date_of (combine cd 0 + utcoffset_at_utc tz (combine cd 0)))) = None \<longrightarrow>
        process_day tzs tz_str (get_business_hours d sid) start_time end_time recs cd totals
          = Inr totals)"
proof (intro conjI impI allI)
  fix i :: int assume "bh_rows d sid = []" "0 \<le> i \<and> i \<le> 6"
  then show "get_business_hours d sid i = Some full_day"
    by (simp add: get_business_hours_default)
next
  fix i :: int assume "bh_rows d sid \<noteq> []" "i \<notin> day_of_week ` set (bh_rows d sid)"
  then show "get_business_hours d sid i = None"
    by (rule get_business_hours_unlisted)
next
  fix i :: int assume a: "0 \<le> i \<and> i \<le> 6 \<and> i \<notin> day_of_week ` set (bh_rows d sid)"
  show "(get_business_hours d sid i = Some full_day) = (bh_rows d sid = [])"
  proof (cases "bh_rows d sid = []")
    case True
    with a show ?thesis by (simp add: get_business_hours_default)
  next
    case False
    with a have "get_business_hours d sid i = None"
      by (simp add: get_business_hours_unlisted)
    with False show ?thesis by simp
  qed
next
  assume a: "tzs tz_str = Some tz
        \<and> get_business_hours d sid
            (weekday (date_of (combine cd 0 + utcoffset_at_utc tz (combine cd 0)))) = None"
  show "process_day tzs tz_str (get_business_hours d sid) start_time end_time recs cd totals
          = Inr totals"
    by (rule process_day_closed[where tz = tz]) (simp_all add: a)
qed

theorem business_hours_fallback_policies_witness:
  "bh_rows db_partial ''s9'' = []
   \<and> get_business_hours db_partial ''s9'' 5 = Some full_day
   \<and> bh_rows db_partial ''s3'' \<noteq> []
   \<and> 5 \<notin> day_of_week ` set (bh_rows db_partial ''s3'')
   \<and> get_business_hours db_partial ''s3'' 5 = None
   \<and> example_tzdb ''UTC'' = Some (fixed_offset 0)
   \<and> weekday (date_of (combine (jan 28) 0
         + utcoffset_at_utc (fixed_offset 0) (combine (jan 28) 0))) = 5
   \<and> process_day example_tzdb ''UTC'' (get_business_hours db_partial ''s3'')
        (at_time (jan 27) 0 0) (at_time (jan 29) 0 0) [] (jan 28) (1, 2) = Inr (1, 2)"
proof -
  have h1: "bh_rows db_partial ''s9'' = []" by code_simp
  have h2: "bh_rows db_partial ''s3'' \<noteq> []" by code_simp
  have h3: "5 \<notin> day_of_week ` set (bh_rows db_partial ''s3'')" by code_simp
  have h4: "example_tzdb ''UTC'' = Some (fixed_offset 0)" by (simp add: example_tzdb_def)
  have h5: "weekday (date_of (combine (jan 28) 0
         + utcoffset_at_utc (fixed_offset 0) (combine (jan 28) 0))) = 5"
    by code_simp
  have c1: "get_business_hours db_partial ''s9'' 5 = Some full_day"
    using business_hours_fallback_policies[of db_partial "''s9''"] h1 by simp
  note t = business_hours_fallback_policies[of db_partial "''s3''" example_tzdb "''UTC''"
      "fixed_offset 0" "jan 28" "at_time (jan 27) 0 0" "at_time (jan 29) 0 0" "[]" "(1, 2)"]
  have c2: "get_business_hours db_partial ''s3'' 5 = None"
    using t h2 h3 by blast
  have c3: "process_day example_tzdb ''UTC'' (get_business_hours db_partial ''s3'')
        (at_time (jan 27) 0 0) (at_time (jan 29) 0 0) [] (jan 28) (1, 2) = Inr (1, 2)"
    using t h4 h5 c2 by simp
  from h1 h2 h3 h4 h5 c1 c2 c3 show ?thesis by blast
qed

text \<open>
  Claim C4 (overnight windows). The property asks that a window with
  \<open>start_local > end_local\<close> extend into the next calendar date and that, for a
  location closed at all other hours, exactly the overnight span (4 hours for 22:00 to
  02:00) be attributed for each pairing of days, split correctly across the UTC date
  boundary. The code extends the window of the date on which it opens (lines 141 and
  142), but it never visits the window that opened on the day before the first date of
  the range, so the part after midnight is lost whenever the range starts on the second
  date of the pairing. For \<open>s4\<close> (zone UTC, open 22:00 to 02:00 every day) the
  sibling functions of lines 54 to 86 count that part as business time:
  \<open>is_within_business_hours\<close> holds on Tuesday at 01:30 and
  \<open>get_business_hours_duration\<close> is 4 hours. The range Monday 12:00 to Tuesday
  12:00, which contains the window, gets 4 hours. The range Tuesday 00:00 to 12:00, the
  half of the pairing after the date boundary, holds the observation of 01:30 and gets
  \<open>(0, 0)\<close> where the property asks for a sum of 2 hours. The last-day range of
  the reference time Wednesday 01:00, Tuesday 01:00 to Wednesday 01:00, gets 3 hours
  where the property asks for 4.
\<close>

theorem overnight_tail_lost:
  "get_store_timezone db_nightly ''s4'' = ''UTC''
   \<and> is_within_business_hours (at_time (jan 24) 1 30) (get_business_hours db_nightly ''s4'')
   \<and> get_business_hours_duration (get_business_hours db_nightly ''s4'') (weekday (jan 23)) = 4
   \<and> interpolate_status_for_period example_tzdb db_nightly ''s4''
         (at_time (jan 23) 12 0) (at_time (jan 24) 12 0) ''UTC''
         (get_business_hours db_nightly ''s4'') = Inr (3, 1)
   \<and> interpolate_status_for_period example_tzdb db_nightly ''s4''
         (at_time (jan 24) 0 0) (at_time (jan 24) 12 0) ''UTC''
         (get_business_hours db_nightly ''s4'') = Inr (0, 0)
   \<and> interpolate_status_for_period example_tzdb db_nightly ''s4''
         (at_time (jan 24) 1 0) (at_time (jan 25) 1 0) ''UTC''
         (get_business_hours db_nightly ''s4'') = Inr (0, 3)"
  by code_simp

text \<open>
  Claim C5 (carried-forward interpolation within a period). When a clipped business
  period holds at least one observation, the code adds to the uptime, one after the
  other, the minutes of the pieces of \<open>locf_segments\<close> whose state is
  \<open>active\<close> and to the downtime the minutes of all other pieces, starting from the
  state \<open>inactive\<close> at the period start. In particular a single \<open>active\<close>
  observation gives as downtime the time from the period start to the observation and
  as uptime the time from the observation to the period end, wherever in the period the
  observation lies, the midpoint included.
\<close>

theorem carried_forward_attribution:
  "(day_records_of recs ps pe \<noteq> [] \<longrightarrow>
      process_period recs ps pe (u, d) =
        (float_sum u (segment_minutes (\<lambda>st. st = ''active'')
               (locf_segments ps ''inactive'' (day_records_of recs ps pe) pe)),
         float_sum d (segment_minutes (\<lambda>st. st \<noteq> ''active'')
               (locf_segments ps ''inactive'' (day_records_of recs ps pe) pe))))
   \<and> (day_records_of recs ps pe = [r] \<and> status r = ''active'' \<longrightarrow>
      process_period recs ps pe (0, 0) =
        (minutes (pe - timestamp_utc r), minutes (timestamp_utc r - ps)))"
proof (intro conjI impI)
  assume "day_records_of recs ps pe \<noteq> []"
  then show "process_period recs ps pe (u, d) =
        (float_sum u (segment_minutes (\<lambda>st. st = ''active'')
               (locf_segments ps ''inactive'' (day_records_of recs ps pe) pe)),
         float_sum d (segment_minutes (\<lambda>st. st \<noteq> ''active'')
               (locf_segments ps ''inactive'' (day_records_of recs ps pe) pe)))"
    by (rule process_period_segments)
next
  assume "day_records_of recs ps pe = [r] \<and> status r = ''active''"
  then show "process_period recs ps pe (0, 0) =
        (minutes (pe - timestamp_utc r), minutes (timestamp_utc r - ps))"
    by (simp add: process_period_def Let_def float_add_zero_minutes)
qed

theorem carried_forward_attribution_witness:
  "day_records_of (store_status db_single) (at_time (jan 25) 17 0) (at_time (jan 25) 18 0)
      = [observation ''s1'' (at_time (jan 25) 17 30) ''active'']
   \<and> status (observation ''s1'' (at_time (jan 25) 17 30) ''active'') = ''active''
   \<and> process_period (store_status db_single) (at_time (jan 25) 17 0) (at_time (jan 25) 18 0)
        (0, 0) = (30, 30)"
proof -
  let ?r = "observation ''s1'' (at_time (jan 25) 17 30) ''active''"
  have h1: "day_records_of (store_status db_single) (at_time (jan 25) 17 0)
              (at_time (jan 25) 18 0) = [?r]"
    by code_simp
  have h2: "status ?r = ''active''" by (simp add: observation_def)
  have m1: "minutes (at_time (jan 25) 18 0 - timestamp_utc ?r) = 30" by code_simp
  have m2: "minutes (timestamp_utc ?r - at_time (jan 25) 17 0) = 30" by code_simp
  from carried_forward_attribution[of "store_status db_single" "at_time (jan 25) 17 0"
      "at_time (jan 25) 18 0" 0 0 ?r] h1 h2
  have "process_period (store_status db_single) (at_time (jan 25) 17 0)
          (at_time (jan 25) 18 0) (0, 0)
        = (minutes (at_time (jan 25) 18 0 - timestamp_utc ?r),
           minutes (timestamp_utc ?r - at_time (jan 25) 17 0))"
    by blast
  with h1 h2 m1 m2 show ?thesis by simp
qed

text \<open>
  Claim C6 (units, rounding and totality of the metrics). The property asks that the
  computation never fail for a location with zero observations, for every reference
  time. It does fail for a reference time within the first week of the year 1: the
  subtraction of the window length at lines 200 to 202 leaves the range of
  \<open>datetime\<close> and raises \<open>OverflowError\<close>, before any observation is
  looked at. Location \<open>zz\<close> has no observation in \<open>db_three\<close>.
\<close>

theorem metrics_year_one_counterexample:
  "map ss_store_id (store_status db_three) = [''a'', ''a'', ''b'', ''c'']
   \<and> datetime_min \<le> datetime_min + timedelta_days 3
   \<and> datetime_min + timedelta_days 3 \<le> datetime_max
   \<and> calculate_store_metrics example_tzdb db_three ''zz'' (datetime_min + timedelta_days 3)
       = Inl OverflowError"
proof -
  have a: "map ss_store_id (store_status db_three) = [''a'', ''a'', ''b'', ''c'']"
    by code_simp
  have b: "datetime_min \<le> datetime_min + timedelta_days 3
      \<and> datetime_min + timedelta_days 3 \<le> datetime_max"
    by code_simp
  have s1: "datetime_sub (datetime_min + timedelta_days 3) (timedelta_hours 1)
      = Inr (datetime_min + timedelta_days 3 - timedelta_hours 1)"
    by code_simp
  have s2: "datetime_sub (datetime_min + timedelta_days 3) (timedelta_days 1)
      = Inr (datetime_min + timedelta_days 3 - timedelta_days 1)"
    by code_simp
  have s3: "datetime_sub (datetime_min + timedelta_days 3) (timedelta_weeks 1) = Inl OverflowError"
    by code_simp
  have c: "calculate_store_metrics example_tzdb db_three ''zz'' (datetime_min + timedelta_days 3)
       = Inl OverflowError"
    by (simp add: calculate_store_metrics_def Let_def s1 s2 s3)
  from a b c show ?thesis by simp
qed

text \<open>
  Claim C6, amended: for every location and every reference time that lies at least one
  week after \<open>datetime.min\<close>, the following holds. When
  \<open>calculate_store_metrics\<close> returns a record, its two last-hour figures are
  \<open>round(hours * 60, 2)\<close> of the interpolated hours of the range from one hour
  before the reference time, that is minutes, and its day and week figures are
  \<open>round(hours, 2)\<close> of the one-day and one-week ranges, that is hours. Each
  \<open>round(v, 2)\<close> is the float nearest to a whole number of hundredths that lies
  within half a hundredth of \<open>v\<close>. For a location without any observation the
  call returns a record and raises nothing, whatever the zone name and the business
  hours are.
\<close>

theorem metrics_units_and_rounding:
  "(calculate_store_metrics tzs d sid current_time = Inr m \<longrightarrow>
      (\<exists>uptime_1h downtime_1h uptime_1d downtime_1d uptime_1w downtime_1w.
         interpolate_status_for_period tzs d sid (current_time - timedelta_hours 1) current_time
            (get_store_timezone d sid) (get_business_hours d sid) = Inr (uptime_1h, downtime_1h)
       \<and> interpolate_status_for_period tzs d sid (current_time - timedelta_days 1) current_time
            (get_store_timezone d sid) (get_business_hours d sid) = Inr (uptime_1d, downtime_1d)
       \<and> interpolate_status_for_period tzs d sid (current_time - timedelta_weeks 1) current_time
            (get_store_timezone d sid) (get_business_hours d sid) = Inr (uptime_1w, downtime_1w)
       \<and> uptime_last_hour m = py_round (float_mul uptime_1h 60) 2
       \<and> downtime_last_hour m = py_round (float_mul downtime_1h 60) 2
       \<and> uptime_last_day m = py_round uptime_1d 2
       \<and> downtime_last_day m = py_round downtime_1d 2
       \<and> uptime_last_week m = py_round uptime_1w 2
       \<and> downtime_last_week m = py_round downtime_1w 2))
   \<and> (\<forall>v. py_round v 2 = float64 (of_int (round_half_even (v * 100)) / 100)
          \<and> \<bar>of_int (round_half_even (v * 100)) / 100 - v\<bar> \<le> 1 / 200)
   \<and> (list_all (\<lambda>r. ss_store_id r \<noteq> sid) (store_status d)
        \<and> datetime_min + timedelta_weeks 1 \<le> current_time
        \<and> current_time \<le> datetime_max \<longrightarrow>
        (\<exists>m'. calculate_store_metrics tzs d sid current_time = Inr m'))"
proof (intro conjI impI allI)
  assume a: "calculate_store_metrics tzs d sid current_time = Inr m"
  from calculate_Inr[OF a] obtain u1 d1 u2 d2 u3 d3 where
    i: "interpolate_status_for_period tzs d sid (current_time - timedelta_hours 1) current_time
            (get_store_timezone d sid) (get_business_hours d sid) = Inr (u1, d1)"
       "interpolate_status_for_period tzs d sid (current_time - timedelta_days 1) current_time
            (get_store_timezone d sid) (get_business_hours d sid) = Inr (u2, d2)"
       "interpolate_status_for_period tzs d sid (current_time - timedelta_weeks 1) current_time
            (get_store_timezone d sid) (get_business_hours d sid) = Inr (u3, d3)"
    and m: "m = \<lparr>store_id = sid,
          uptime_last_hour = py_round (float_mul u1 60) 2,
          uptime_last_day = py_round u2 2,
          uptime_last_week = py_round u3 2,
          downtime_last_hour = py_round (float_mul d1 60) 2,
          downtime_last_day = py_round d2 2,
          downtime_last_week = py_round d3 2\<rparr>"
    by blast
  show "\<exists>uptime_1h downtime_1h uptime_1d downtime_1d uptime_1w downtime_1w.
         interpolate_status_for_period tzs d sid (current_time - timedelta_hours 1) current_time
            (get_store_timezone d sid) (get_business_hours d sid) = Inr (uptime_1h, downtime_1h)
       \<and> interpolate_status_for_period tzs d sid (current_time - timedelta_days 1) current_time
            (get_store_timezone d sid) (get_business_hours d sid) = Inr (uptime_1d, downtime_1d)
       \<and> interpolate_status_for_period tzs d sid (current_time - timedelta_weeks 1) current_time
            (get_store_timezone d sid) (get_business_hours d sid) = Inr (uptime_1w, downtime_1w)
       \<and> uptime_last_hour m = py_round (float_mul uptime_1h 60) 2
       \<and> downtime_last_hour m = py_round (float_mul downtime_1h 60) 2
       \<and> uptime_last_day m = py_round uptime_1d 2
       \<and> downtime_last_day m = py_round downtime_1d 2
       \<and> uptime_last_week m = py_round uptime_1w 2
       \<and> downtime_last_week m = py_round downtime_1w 2"
    using i m by simp
next
  fix v
  show "py_round v 2 = float64 (of_int (round_half_even (v * 100)) / 100)"
    by (simp add: py_round_def)
  show "\<bar>of_int (round_half_even (v * 100)) / 100 - v\<bar> \<le> 1 / 200"
    by (rule py_round_decimal)
next
  assume a: "list_all (\<lambda>r. ss_store_id r \<noteq> sid) (store_status d)
        \<and> datetime_min + timedelta_weeks 1 \<le> current_time
        \<and> current_time \<le> datetime_max"
  then have "\<forall>r \<in> set (store_status d). ss_store_id r \<noteq> sid" by (simp add: list_all_iff)
  then show "\<exists>m'. calculate_store_metrics tzs d sid current_time = Inr m'"
    using a by (intro calculate_no_observation) simp_all
qed

theorem metrics_units_and_rounding_witness:
  "calculate_store_metrics example_tzdb db_three ''a'' (at_time (jan 25) 12 0) = Inr metrics_a
   \<and> interpolate_status_for_period example_tzdb db_three ''a''
        (at_time (jan 25) 12 0 - timedelta_hours 1) (at_time (jan 25) 12 0)
        (get_store_timezone db_three ''a'') (get_business_hours db_three ''a'')
        = Inr (1 / 2, 1 / 2)
   \<and> uptime_last_hour metrics_a = py_round (float_mul (1 / 2) 60) 2
   \<and> uptime_last_hour metrics_a = 30
   \<and> uptime_last_day metrics_a = float64 (267 / 100)
   \<and> list_all (\<lambda>r. ss_store_id r \<noteq> ''zz'') (store_status db_three)
   \<and> datetime_min + timedelta_weeks 1 \<le> at_time (jan 25) 12 0
   \<and> at_time (jan 25) 12 0 \<le> datetime_max
   \<and> (\<exists>m'. calculate_store_metrics example_tzdb db_three ''zz'' (at_time (jan 25) 12 0) = Inr m')"
proof -
  let ?t = "at_time (jan 25) 12 0"
  note h1 = example_metrics_a
  have h2: "list_all (\<lambda>r. ss_store_id r \<noteq> ''zz'') (store_status db_three)"
    by code_simp
  have h3: "datetime_min + timedelta_weeks 1 \<le> ?t \<and> ?t \<le> datetime_max" by code_simp
  have e2: "uptime_last_hour metrics_a = 30 \<and> uptime_last_day metrics_a = float64 (267 / 100)"
    by (simp add: metrics_a_def)
  from metrics_units_and_rounding[of example_tzdb db_three "''a''" ?t metrics_a] h1
  obtain u1 d1 where
    c1: "interpolate_status_for_period example_tzdb db_three ''a'' (?t - timedelta_hours 1) ?t
        (get_store_timezone db_three ''a'') (get_business_hours db_three ''a'') = Inr (u1, d1)"
    and c2: "uptime_last_hour metrics_a = py_round (float_mul u1 60) 2"
    by blast
  have e1: "interpolate_status_for_period example_tzdb db_three ''a'' (?t - timedelta_hours 1) ?t
        (get_store_timezone db_three ''a'') (get_business_hours db_three ''a'')
        = Inr (1 / 2, 1 / 2)"
    by code_simp
  from c1 e1 have "u1 = 1 / 2" by simp
  with c2 have c3: "uptime_last_hour metrics_a = py_round (float_mul (1 / 2) 60) 2" by simp
  have c4: "\<exists>m'. calculate_store_metrics example_tzdb db_three ''zz'' ?t = Inr m'"
    using metrics_units_and_rounding[of example_tzdb db_three "''zz''" ?t metrics_a] h2 h3 by blast
  from h1 h2 h3 e1 e2 c3 c4 show ?thesis by blast
qed

text \<open>
  Claim C7 (the job state only moves forward). Start from a service without reports and
  without scheduled tasks and let any sequence of events happen. In the next event, a
  report that appears is \<open>Running\<close> and has no file path; a report that exists
  either stays as it is or was \<open>Running\<close> and becomes \<open>Complete\<close> with the
  path of its artifact, or \<open>Failed\<close>. A report that is not \<open>Running\<close> stays
  exactly as it is through every later sequence of events.
\<close>

theorem report_state_monotonic:
  assumes "reports (sys_db s0) = Map.empty" and "background_tasks s0 = []"
    and "s = run_events tzs evs s0"
  shows "(\<forall>rid r'. reports (sys_db s) rid = None
              \<and> reports (sys_db (apply_event tzs ev s)) rid = Some r' \<longrightarrow>
            r' = \<lparr>report_status = ''Running'', file_path = None\<rparr>)
     \<and> (\<forall>rid r. reports (sys_db s) rid = Some r \<longrightarrow>
          (\<exists>r'. reports (sys_db (apply_event tzs ev s)) rid = Some r'
             \<and> (r' = r
                  \<or> report_status r = ''Running''
                    \<and> (report_status r' = ''Complete'' \<and> file_path r' = Some (csv_path rid)
                       \<or> report_status r' = ''Failed'' \<and> file_path r' = file_path r))))
     \<and> (\<forall>rid r later. reports (sys_db s) rid = Some r \<and> report_status r \<noteq> ''Running'' \<longrightarrow>
          reports (sys_db (run_events tzs later s)) rid = Some r)"
proof -
  have inv: "tasks_running s"
    unfolding assms(3) by (rule tasks_running_run_events[OF tasks_running_initial[OF assms(2)]])
  show ?thesis
  proof (intro conjI allI impI)
    fix rid r'
    assume "reports (sys_db s) rid = None
              \<and> reports (sys_db (apply_event tzs ev s)) rid = Some r'"
    then show "r' = \<lparr>report_status = ''Running'', file_path = None\<rparr>"
      using apply_event_created[of s rid tzs ev r'] by simp
  next
    fix rid r
    assume "reports (sys_db s) rid = Some r"
    then show "\<exists>r'. reports (sys_db (apply_event tzs ev s)) rid = Some r'
             \<and> (r' = r
                  \<or> report_status r = ''Running''
                    \<and> (report_status r' = ''Complete'' \<and> file_path r' = Some (csv_path rid)
                       \<or> report_status r' = ''Failed'' \<and> file_path r' = file_path r))"
      by (rule apply_event_transition[OF inv])
  next
    fix rid r later
    assume "reports (sys_db s) rid = Some r \<and> report_status r \<noteq> ''Running''"
    then show "reports (sys_db (run_events tzs later s)) rid = Some r"
      using run_events_terminal[OF inv, of rid r tzs later] by simp
  qed
qed

theorem report_state_monotonic_witness:
  "reports (sys_db service_start) = Map.empty
   \<and> background_tasks service_start = []
   \<and> reports (sys_db (run_events example_tzdb [Trigger ''job1''] service_start)) ''job1''
       = Some \<lparr>report_status = ''Running'', file_path = None\<rparr>
   \<and> reports (sys_db (run_events example_tzdb [Trigger ''job1'', Run_task ''job1'']
         service_start)) ''job1''
       = Some \<lparr>report_status = ''Complete'', file_path = Some ''reports/job1.csv''\<rparr>
   \<and> reports (sys_db (run_events example_tzdb [Trigger ''job1'', Run_task ''job1'']
         (run_events example_tzdb [Trigger ''job1'', Run_task ''job1''] service_start))) ''job1''
       = Some \<lparr>report_status = ''Complete'', file_path = Some ''reports/job1.csv''\<rparr>"
proof -
  let ?done = "\<lparr>report_status = ''Complete'', file_path = Some ''reports/job1.csv''\<rparr>"
  let ?s = "run_events example_tzdb [Trigger ''job1'', Run_task ''job1''] service_start"
  have h1: "reports (sys_db service_start) = Map.empty"
    by (simp add: service_start_def db_three_def)
  have h2: "background_tasks service_start = []" by (simp add: service_start_def)
  have e1: "reports (sys_db (run_events example_tzdb [Trigger ''job1''] service_start)) ''job1''
       = Some \<lparr>report_status = ''Running'', file_path = None\<rparr>"
    by (simp add: trigger_report_def h1)
  have e2: "reports (sys_db ?s) ''job1'' = Some ?done"
    by (simp add: trigger_report_def h1 h2 run_background_task_def generate_report_async_def
          Let_def service_start_def db_three_def csv_path_def split: prod.splits)
  have e3: "report_status ?done \<noteq> ''Running''" by simp
  from report_state_monotonic[OF h1 h2 refl, of example_tzdb "[Trigger ''job1'', Run_task ''job1'']"]
    e2 e3
  have "reports (sys_db (run_events example_tzdb [Trigger ''job1'', Run_task ''job1''] ?s)) ''job1''
          = Some ?done"
    by blast
  with h1 h2 e1 e2 show ?thesis by blast
qed

text \<open>
  Claim C8 (a failing location is skipped, the job completes). When the report exists
  and its artifact can be written, \<open>generate_report_async\<close> writes one data row for
  each location whose metrics were computed, in the order of the locations, and none
  for a location whose computation raised; the number of rows is the number of such
  locations; and the report becomes \<open>Complete\<close> with the path of the artifact. With
  the three locations of \<open>db_three\<close>, of which the second raises, the artifact has
  two rows.
\<close>

theorem per_location_failure_isolation:
  assumes "reports d report_id = Some report" and "writable f (csv_path report_id)"
  shows "\<exists>d' f' csv report'.
       generate_report_async tzs report_id (d, f) = (d', f')
     \<and> files f' (csv_path report_id) = Some csv
     \<and> map Inr (data_rows csv) =
         filter (\<lambda>res. \<not> isl res)
           (map (\<lambda>sid. metrics_at tzs d sid (get_max_timestamp d)) (distinct_store_ids d))
     \<and> length (data_rows csv) =
         length (filter (\<lambda>sid. \<not> isl (metrics_at tzs d sid (get_max_timestamp d)))
                   (distinct_store_ids d))
     \<and> reports d' report_id = Some report'
     \<and> report_status report' = ''Complete''
     \<and> file_path report' = Some (csv_path report_id)"
  unfolding generate_report_complete[OF assms]
  by (simp add: collect_report_data_filter collect_report_data_length)

theorem per_location_failure_isolation_witness:
  "reports db_three_running ''job1'' = Some \<lparr>report_status = ''Running'', file_path = None\<rparr>
   \<and> writable fs_empty (csv_path ''job1'')
   \<and> distinct_store_ids db_three_running = [''a'', ''b'', ''c'']
   \<and> metrics_at example_tzdb db_three_running ''b'' (get_max_timestamp db_three_running)
       = Inl (UnknownTimeZoneError ''Mars/Olympus'')
   \<and> (\<exists>d' f' csv report'.
         generate_report_async example_tzdb ''job1'' (db_three_running, fs_empty) = (d', f')
       \<and> files f' (csv_path ''job1'') = Some csv
       \<and> map store_id (data_rows csv) = [''a'', ''c'']
       \<and> length (data_rows csv) = 2
       \<and> reports d' ''job1'' = Some report'
       \<and> report_status report' = ''Complete'')"
proof -
  let ?t = "at_time (jan 25) 12 0"
  let ?f = "\<lambda>sid. metrics_at example_tzdb db_three_running sid (get_max_timestamp db_three_running)"
  have h1: "reports db_three_running ''job1''
              = Some \<lparr>report_status = ''Running'', file_path = None\<rparr>"
    by (simp add: db_three_running_def)
  have h2: "writable fs_empty (csv_path ''job1'')" by (simp add: fs_empty_def)
  have e1: "distinct_store_ids db_three_running = [''a'', ''b'', ''c'']" by code_simp
  have mx: "get_max_timestamp db_three_running = Some ?t" by code_simp
  have rng: "datetime_min + timedelta_weeks 1 \<le> ?t" "?t \<le> datetime_max" by code_simp+
  have za: "pytz_timezone example_tzdb (get_store_timezone db_three_running ''a'')
              = Inr (fixed_offset 0)"
    by (simp add: pytz_timezone_def example_tzdb_def get_store_timezone_def
          db_three_running_def db_three_def)
  have zc: "pytz_timezone example_tzdb (get_store_timezone db_three_running ''c'')
              = Inr (fixed_offset 0)"
    by (simp add: pytz_timezone_def example_tzdb_def get_store_timezone_def
          db_three_running_def db_three_def)
  from calculate_succeeds[OF za rng] obtain ma where
    ma: "?f ''a'' = Inr ma" "store_id ma = ''a''" by (auto simp: metrics_at_def mx)
  from calculate_succeeds[OF zc rng] obtain mc where
    mc: "?f ''c'' = Inr mc" "store_id mc = ''c''" by (auto simp: metrics_at_def mx)
  have s1: "datetime_sub ?t (timedelta_hours 1) = Inr (at_time (jan 25) 11 0)" by code_simp
  have s2: "datetime_sub ?t (timedelta_days 1) = Inr (at_time (jan 24) 12 0)" by code_simp
  have s3: "datetime_sub ?t (timedelta_weeks 1) = Inr (at_time (jan 18) 12 0)" by code_simp
  have ib: "interpolate_status_for_period example_tzdb db_three_running ''b''
      (at_time (jan 25) 11 0) ?t
      (get_store_timezone db_three_running ''b'') (get_business_hours db_three_running ''b'')
      = Inl (UnknownTimeZoneError ''Mars/Olympus'')"
    by code_simp
  have mb: "?f ''b'' = Inl (UnknownTimeZoneError ''Mars/Olympus'')"
    by (simp add: metrics_at_def mx calculate_store_metrics_def Let_def s1 s2 s3 ib)
  from per_location_failure_isolation[OF h1 h2, of example_tzdb]
  obtain d' f' csv report' where
    g: "generate_report_async example_tzdb ''job1'' (db_three_running, fs_empty) = (d', f')"
    and c: "files f' (csv_path ''job1'') = Some csv"
    and rows: "map Inr (data_rows csv) =
         filter (\<lambda>res. \<not> isl res) (map ?f (distinct_store_ids db_three_running))"
    and r: "reports d' ''job1'' = Some report'" "report_status report' = ''Complete''"
    by blast
  from rows have "map Inr (data_rows csv) = [Inr ma, Inr mc :: error + Metrics]"
    unfolding e1 by (simp add: ma mb mc)
  then have rows': "data_rows csv = [ma, mc]"
    by (auto simp: map_eq_Cons_conv)
  then have ids: "map store_id (data_rows csv) = [''a'', ''c'']" "length (data_rows csv) = 2"
    using ma(2) mc(2) by simp_all
  have "\<exists>d' f' csv report'.
         generate_report_async example_tzdb ''job1'' (db_three_running, fs_empty) = (d', f')
       \<and> files f' (csv_path ''job1'') = Some csv
       \<and> map store_id (data_rows csv) = [''a'', ''c'']
       \<and> length (data_rows csv) = 2
       \<and> reports d' ''job1'' = Some report'
       \<and> report_status report' = ''Complete''"
    using g c ids r by (intro exI conjI)
  with h1 h2 e1 mb show ?thesis by (intro conjI)
qed

text \<open>
  Claim C9 (no negative durations). Whenever \<open>interpolate_status_for_period\<close>
  returns a pair, both the uptime hours and the downtime hours are at least zero. The
  observations it walks are those of the query, which lie within the range in ascending
  order of timestamp.
\<close>

theorem interpolate_nonneg:
  assumes "interpolate_status_for_period tzs d sid s e tz_str hours = Inr (up, down)"
  shows "0 \<le> up \<and> 0 \<le> down"
proof (cases "query_status_records d sid s e = []")
  case True
  with assms show ?thesis by (simp add: interpolate_status_for_period_def)
next
  case False
  with assms obtain u m where
    dl: "day_loop tzs tz_str hours s e (query_status_records d sid s e) (date_of s) (date_of e) (0, 0) = Inr (u, m)"
    and r: "up = float_div u 60" "down = float_div m 60"
    by (auto simp: interpolate_status_for_period_def Let_def split: sum.splits prod.splits)
  from day_loop_nonneg[OF query_status_records_sorted _ _ dl] have "0 \<le> u \<and> 0 \<le> m" by simp
  with r show ?thesis by (simp add: float_div_nonneg)
qed

theorem interpolate_nonneg_witness:
  "interpolate_status_for_period example_tzdb db_three ''a''
       (at_time (jan 25) 11 0) (at_time (jan 25) 12 0) ''UTC''
       (get_business_hours db_three ''a'') = Inr (1 / 2, 1 / 2)
   \<and> (0::rat) \<le> 1 / 2 \<and> (0::rat) \<le> 1 / 2"
proof -
  have h: "interpolate_status_for_period example_tzdb db_three ''a''
       (at_time (jan 25) 11 0) (at_time (jan 25) 12 0) ''UTC''
       (get_business_hours db_three ''a'') = Inr (1 / 2, 1 / 2)"
    by code_simp
  from interpolate_nonneg[OF h] h show ?thesis by simp
qed

text \<open>
  Claim C10 (a completed report whose file is gone). When the stored status of a report
  is \<open>Complete\<close> and its file path is unset, empty or names no existing file,
  \<open>get_report\<close> raises the HTTP error 500 "Report file not found": it returns
  neither the file nor the \<open>Running\<close> answer, and raises neither the error of a
  failed report nor the error 404 of an unknown report.
\<close>

theorem get_report_complete_file_missing:
  assumes "reports (sys_db s) report_id = Some report"
    and "report_status report = ''Complete''"
    and "file_path report = None \<or> file_path report = Some []
         \<or> (\<exists>p. file_path report = Some p \<and> \<not> path_exists (sys_fs s) p)"
  shows "get_report report_id s = HTTPException 500 ''Report file not found''"
  using assms by (auto simp: get_report_def split: option.splits)

theorem get_report_complete_file_missing_witness:
  "reports (sys_db service_lost_file) ''job1''
     = Some \<lparr>report_status = ''Complete'', file_path = Some ''reports/job1.csv''\<rparr>
   \<and> \<not> path_exists (sys_fs service_lost_file) ''reports/job1.csv''
   \<and> get_report ''job1'' service_lost_file = HTTPException 500 ''Report file not found''"
proof -
  have h1: "reports (sys_db service_lost_file) ''job1''
     = Some \<lparr>report_status = ''Complete'', file_path = Some ''reports/job1.csv''\<rparr>"
    by (simp add: service_lost_file_def)
  have h2: "\<not> path_exists (sys_fs service_lost_file) ''reports/job1.csv''"
    by (simp add: service_lost_file_def path_exists_def)
  have "get_report ''job1'' service_lost_file = HTTPException 500 ''Report file not found''"
    by (rule get_report_complete_file_missing[OF h1]) (simp_all add: h2)
  with h1 h2 show ?thesis by simp
qed

end
